theory Spec2Isabelle
  imports Main "HOL-Library.AList"
begin

section \<open>Python values, exceptions and built-ins\<close>

text \<open>
  The handlers work on JSON-like data: request bodies, DynamoDB items, stream records
  and service replies are dictionaries with string keys. \<open>pyval\<close> is that universe. A
  dictionary is an association list, so insertion order and equality are those of the
  Python dict. A string is a list of characters with code points 0 to 255. Numbers are
  Python ints; a float is not represented.
\<close>

datatype pyval =
    PNone
  | PBool bool
  | PInt int
  | PStr string
  | PList "pyval list"
  | PDict "(string \<times> pyval) list"

type_synonym item = "(string \<times> pyval) list"

text \<open>
  Exceptions are values. \<open>ClientError code message\<close> is botocore's ClientError with
  the \<open>Error.Code\<close> and \<open>Error.Message\<close> entries of its response (absent entries are
  \<open>None\<close>); \<open>JSONDecodeError\<close> is a subclass of \<open>ValueError\<close>; \<open>OtherError\<close> stands for
  every other exception class a library call may raise.
\<close>

datatype exn =
    ClientError "string option" "string option"
  | KeyError string
  | TypeError
  | AttributeError
  | ValueError string
  | JSONDecodeError
  | OtherError string

text \<open>\<open>needle in haystack\<close> on strings.\<close>

fun py_contains :: "string \<Rightarrow> string \<Rightarrow> bool" where
  "py_contains needle [] = (needle = [])"
| "py_contains needle (c # cs) =
     (take (length needle) (c # cs) = needle \<or> py_contains needle cs)"

text \<open>Truth value of an object (\<open>if x\<close>, \<open>not x\<close>, \<open>x or y\<close>).\<close>

definition py_truthy :: "pyval \<Rightarrow> bool" where
  "py_truthy v =
     (case v of
        PNone \<Rightarrow> False
      | PBool b \<Rightarrow> b
      | PInt n \<Rightarrow> n \<noteq> 0
      | PStr s \<Rightarrow> s \<noteq> []
      | PList xs \<Rightarrow> xs \<noteq> []
      | PDict d \<Rightarrow> d \<noteq> [])"

text \<open>\<open>d.get(k, default)\<close>: only a dict has the method.\<close>

definition py_get :: "pyval \<Rightarrow> string \<Rightarrow> pyval \<Rightarrow> exn + pyval" where
  "py_get d k dflt =
     (case d of
        PDict al \<Rightarrow> (case map_of al k of Some v \<Rightarrow> Inr v | None \<Rightarrow> Inr dflt)
      | _ \<Rightarrow> Inl AttributeError)"

text \<open>\<open>d[k]\<close> with a string key: a missing key of a dict is a KeyError, any other
  object refuses the subscript with a TypeError.\<close>

definition py_item :: "pyval \<Rightarrow> string \<Rightarrow> exn + pyval" where
  "py_item d k =
     (case d of
        PDict al \<Rightarrow> (case map_of al k of Some v \<Rightarrow> Inr v | None \<Rightarrow> Inl (KeyError k))
      | _ \<Rightarrow> Inl TypeError)"

text \<open>\<open>k in d\<close> with a string \<open>k\<close>.\<close>

definition py_in :: "string \<Rightarrow> pyval \<Rightarrow> exn + bool" where
  "py_in k d =
     (case d of
        PDict al \<Rightarrow> Inr (map_of al k \<noteq> None)
      | PStr s \<Rightarrow> Inr (py_contains k s)
      | PList xs \<Rightarrow> Inr (PStr k \<in> set xs)
      | _ \<Rightarrow> Inl TypeError)"

text \<open>The elements a \<open>for\<close> loop visits: of a list its elements, of a dict its keys,
  of a string its characters; nothing else is iterable.\<close>

definition py_iter :: "pyval \<Rightarrow> exn + pyval list" where
  "py_iter v =
     (case v of
        PList xs \<Rightarrow> Inr xs
      | PDict al \<Rightarrow> Inr (map (\<lambda>kv. PStr (fst kv)) al)
      | PStr s \<Rightarrow> Inr (map (\<lambda>c. PStr [c]) s)
      | _ \<Rightarrow> Inl TypeError)"

text \<open>The entry \<open>k\<close> of a dict, \<open>None\<close> when there is none (used to state properties,
  not by the code).\<close>

definition field :: "pyval \<Rightarrow> string \<Rightarrow> pyval" where
  "field d k =
     (case d of
        PDict al \<Rightarrow> (case map_of al k of Some v \<Rightarrow> v | None \<Rightarrow> PNone)
      | _ \<Rightarrow> PNone)"

text \<open>Sequencing of computations that may raise.\<close>

definition bind_exn :: "exn + 'a \<Rightarrow> ('a \<Rightarrow> exn + 'b) \<Rightarrow> exn + 'b" where
  "bind_exn m f = (case m of Inl e \<Rightarrow> Inl e | Inr v \<Rightarrow> f v)"

text \<open>\<open>os.environ.get(name)\<close> followed by \<open>if not value\<close>.\<close>

definition env_missing :: "string option \<Rightarrow> bool" where
  "env_missing v = (case v of None \<Rightarrow> True | Some s \<Rightarrow> s = [])"

definition env_value :: "string option \<Rightarrow> string" where
  "env_value v = (case v of None \<Rightarrow> [] | Some s \<Rightarrow> s)"

text \<open>
  A text handed to \<open>json.loads\<close>, seen through the decoder: \<open>NoText\<close> is \<open>None\<close> (the
  decoder raises TypeError), \<open>Undecodable\<close> a string that is not JSON (JSONDecodeError),
  \<open>Decoded v\<close> a string that decodes to \<open>v\<close>.
\<close>

datatype json_text = NoText | Undecodable | Decoded pyval

definition json_loads :: "json_text \<Rightarrow> exn + pyval" where
  "json_loads t =
     (case t of
        NoText \<Rightarrow> Inl TypeError
      | Undecodable \<Rightarrow> Inl JSONDecodeError
      | Decoded v \<Rightarrow> Inr v)"

text \<open>The process environment and the handlers' replies.\<close>

record environ =
  KNOWLEDGE_BASE_ID :: "string option"
  DATA_SOURCE_ID :: "string option"
  KNOWLEDGE_BASE_FILES_TABLE :: "string option"
  PROJECT_FILES_TABLE :: "string option"
  CHAT_HISTORY_TABLE :: "string option"
  TENANTS :: json_text

text \<open>
  A reply body before serialisation. Formatted messages keep their parameters:
  \<open>ErrorWith prefix e\<close> is \<open>{'error': f"{prefix}: {str(e)}"}\<close>, \<open>ProcessedBody p e\<close> is
  \<open>{'message': f"Processed {p} TTL expiration events with {e} errors"}\<close>, \<open>DeletedBody p\<close>
  is \<open>{'message': f'Project {p} chat history deleted successfully'}\<close>, \<open>QueryBody\<close> holds
  the query, the service reply and the four filters, \<open>ReadyBody\<close> is the ingestion
  confirmation, \<open>HistoryBody\<close> the messages and their count.
\<close>

datatype resp_body =
    ErrorBody string
  | ErrorWith string exn
  | MessageBody string
  | ProcessedBody nat nat
  | DeletedBody string
  | QueryBody pyval pyval "pyval list" pyval string string
  | ReadyBody
  | HistoryBody "item list" nat
  | EmptyBody

record response =
  statusCode :: int
  rbody :: resp_body

definition create_response :: "int \<Rightarrow> resp_body \<Rightarrow> response" where
  "create_response status_code b = \<lparr>statusCode = status_code, rbody = b\<rparr>"

text \<open>
  \<open>int(x)\<close>. A string is read as Python reads a decimal literal: surrounding white
  space is dropped, one sign is allowed, and single underscores may separate digits.
  White space is what \<open>str.isspace\<close> accepts, which \<open>str.strip\<close> and \<open>int\<close> drop: among the
  code points up to 255 these are 9 to 13, 28 to 32, 133 (next line) and 160 (no-break
  space).
\<close>

definition is_space :: "char \<Rightarrow> bool" where
  "is_space c = (of_char c \<in> {9::nat, 10, 11, 12, 13, 28, 29, 30, 31, 32, 133, 160})"

definition py_strip :: "string \<Rightarrow> string" where
  "py_strip s = rev (dropWhile is_space (rev (dropWhile is_space s)))"

definition is_digit :: "char \<Rightarrow> bool" where
  "is_digit c = (48 \<le> (of_char c :: nat) \<and> (of_char c :: nat) \<le> 57)"

definition digit_value :: "char \<Rightarrow> int" where
  "digit_value c = int (of_char c) - 48"

fun read_digits :: "int \<Rightarrow> string \<Rightarrow> int option" where
  "read_digits acc [] = Some acc"
| "read_digits acc [c] = (if is_digit c then Some (acc * 10 + digit_value c) else None)"
| "read_digits acc (c # d # cs) =
     (if is_digit c then read_digits (acc * 10 + digit_value c) (d # cs)
      else if c = CHR ''_'' \<and> is_digit d then read_digits acc (d # cs)
      else None)"

definition read_unsigned :: "string \<Rightarrow> int option" where
  "read_unsigned s =
     (case s of [] \<Rightarrow> None | c # cs \<Rightarrow> if is_digit c then read_digits 0 s else None)"

definition int_of_string :: "string \<Rightarrow> int option" where
  "int_of_string s =
     (case py_strip s of
        [] \<Rightarrow> None
      | c # cs \<Rightarrow>
          if c = CHR ''-'' then map_option uminus (read_unsigned cs)
          else if c = CHR ''+'' then read_unsigned cs
          else read_unsigned (c # cs))"

definition py_int :: "pyval \<Rightarrow> exn + int" where
  "py_int v =
     (case v of
        PInt n \<Rightarrow> Inr n
      | PBool b \<Rightarrow> Inr (if b then 1 else 0)
      | PStr s \<Rightarrow>
          (case int_of_string s of
             Some n \<Rightarrow> Inr n
           | None \<Rightarrow> Inl (ValueError ''invalid literal for int() with base 10''))
      | _ \<Rightarrow> Inl TypeError)"

definition is_ValueError :: "exn \<Rightarrow> bool" where
  "is_ValueError e = (case e of ValueError m \<Rightarrow> True | JSONDecodeError \<Rightarrow> True | _ \<Rightarrow> False)"

text \<open>
  The API Gateway event as the handlers read it: the HTTP method, the authorizer's
  claims (\<open>None\<close> when \<open>event['requestContext']['authorizer']['claims']\<close> does not
  exist), the body as \<open>event.get('body', '{}')\<close> hands it to the decoder, and the query
  string parameters.
\<close>

record event =
  httpMethod :: "string option"
  claims :: "(string \<times> string) list option"
  body :: json_text
  queryStringParameters :: pyval

text \<open>\<open>get_user_tenant_from_claims\<close> (common_utils, lines 87-100).\<close>

definition get_user_tenant_from_claims :: "event \<Rightarrow> exn + string \<times> string" where
  "get_user_tenant_from_claims ev =
     (case claims ev of
        None \<Rightarrow> Inl (KeyError ''claims'')
      | Some cl \<Rightarrow>
          (case map_of cl ''sub'' of
             None \<Rightarrow> Inl (KeyError ''sub'')
           | Some user_id \<Rightarrow>
               (case map_of cl ''custom:tenantId'' of
                  None \<Rightarrow> Inl (KeyError ''custom:tenantId'')
                | Some tenant_id \<Rightarrow> Inr (user_id, tenant_id))))"

text \<open>\<open>handle_client_error\<close> and \<open>handle_general_exception\<close> (common_utils, lines 178-210)
  give the same reply.\<close>

definition handle_exception :: "exn \<Rightarrow> response" where
  "handle_exception e = create_response 500 (ErrorBody ''Internal server error'')"

section \<open>QueryKnowledgeBase: data\<close>

text \<open>The filter expression and the parameters that \<open>handle_query\<close> builds (lines 261-302).\<close>

datatype retrieval_filter =
    AndAll "retrieval_filter list"
  | Equals string pyval
  | IsIn string "pyval list"

record retrieve_params =
  input_text :: pyval
  config_type :: string
  knowledgeBaseId :: string
  modelArn :: string
  numberOfResults :: int
  filter_expr :: retrieval_filter
  sessionId :: "string option"

text \<open>
  Calls of the operations of the chat history table, in the order they are made:
  \<open>put_item(Item=...)\<close> and \<open>delete_item(Key={'tenantId': ..., 'id': ...})\<close>.
\<close>

datatype chat_request =
    PutItem item
  | DeleteItem pyval pyval

text \<open>
  The world a QueryKnowledgeBase invocation acts on: the contents of the chat history
  table, the calls made on it, the calls made to \<open>retrieve_and_generate\<close>, and the
  number of identifiers drawn from \<open>uuid.uuid4\<close>.
\<close>

record qworld =
  chat_table :: "item list"
  chat_log :: "chat_request list"
  rag_log :: "retrieve_params list"
  uuid_draws :: nat

text \<open>
  What the outside answers during one invocation. \<open>rag_reply k p\<close> is the outcome of
  the call to \<open>retrieve_and_generate\<close> made with parameters \<open>p\<close> after \<open>k\<close> earlier calls;
  \<open>chat_fault k\<close> is the exception, if any, that the call made on the chat history
  table after \<open>k\<close> earlier ones raises, be it raised by the client library before the
  request is sent (an attribute value it cannot serialise, such as a float) or by the
  service; \<open>files_reply t p\<close> is the reply (its \<open>Items\<close>) to the project-files index
  query; \<open>uuid4 k\<close> is the \<open>k\<close>-th identifier drawn; \<open>time_now\<close> is \<open>int(time.time())\<close>.
\<close>

record qservices =
  rag_reply :: "nat \<Rightarrow> retrieve_params \<Rightarrow> exn + pyval"
  chat_fault :: "nat \<Rightarrow> exn option"
  files_reply :: "string \<Rightarrow> pyval \<Rightarrow> exn + item list"
  uuid4 :: "nat \<Rightarrow> string"
  time_now :: int

section \<open>QueryKnowledgeBase: perform_retrieve_and_generate\<close>

text \<open>
  The test of lines 193-195 on a caught ClientError: \<open>error_code\<close> defaults to
  \<open>'Unknown'\<close> and \<open>error_message\<close> to the empty string.
\<close>

definition is_invalid_session_error :: "exn \<Rightarrow> bool" where
  "is_invalid_session_error e =
     (case e of
        ClientError code message \<Rightarrow>
          (let error_code = (case code of None \<Rightarrow> ''Unknown'' | Some c \<Rightarrow> c);
               error_message = (case message of None \<Rightarrow> '''' | Some m \<Rightarrow> m)
           in error_code = ''ValidationException''
              \<and> py_contains ''is not valid'' error_message
              \<and> py_contains ''Session with Id'' error_message)
      | _ \<Rightarrow> False)"

definition call_rag :: "qservices \<Rightarrow> retrieve_params \<Rightarrow> qworld \<Rightarrow> (exn + pyval) \<times> qworld" where
  "call_rag sv params w =
     (rag_reply sv (length (rag_log w)) params, w\<lparr>rag_log := rag_log w @ [params]\<rparr>)"

text \<open>
  Lines 179-214. Only a ClientError is caught; the retry runs inside the handler of the
  first failure, so its own failure propagates.
\<close>

definition perform_retrieve_and_generate ::
  "qservices \<Rightarrow> retrieve_params \<Rightarrow> qworld \<Rightarrow> (exn + pyval \<times> bool) \<times> qworld" where
  "perform_retrieve_and_generate sv retrieve_params w =
     (case call_rag sv retrieve_params w of
        (Inr response, w1) \<Rightarrow> (Inr (response, False), w1)
      | (Inl e, w1) \<Rightarrow>
          (case e of
             ClientError code message \<Rightarrow>
               if is_invalid_session_error e then
                 (case sessionId retrieve_params of
                    Some old_session_id \<Rightarrow>
                      (case call_rag sv (retrieve_params\<lparr>sessionId := None\<rparr>) w1 of
                         (Inr response, w2) \<Rightarrow> (Inr (response, True), w2)
                       | (Inl e2, w2) \<Rightarrow> (Inl e2, w2))
                  | None \<Rightarrow> (Inl e, w1))
               else (Inl e, w1)
           | _ \<Rightarrow> (Inl e, w1)))"

section \<open>QueryKnowledgeBase: the chat history table\<close>

text \<open>
  Modelled from the spec: the chat history table, which is declared in the deployment
  stack and not in the handlers. The table is keyed by \<open>(tenantId, id)\<close> (the key
  \<open>batch_delete_items\<close> builds); a put replaces the entry with the same key or adds a new
  one; a delete removes the entry with the key. The entries of a user are those of the
  \<open>(tenantId, userId)\<close> partition.
\<close>

definition item_key :: "item \<Rightarrow> (pyval \<times> pyval) option" where
  "item_key it =
     (case map_of it ''tenantId'' of
        None \<Rightarrow> None
      | Some t \<Rightarrow> (case map_of it ''id'' of None \<Rightarrow> None | Some i \<Rightarrow> Some (t, i)))"

definition in_partition :: "string \<Rightarrow> string \<Rightarrow> item \<Rightarrow> bool" where
  "in_partition tenant_id user_id it =
     (map_of it ''tenantId'' = Some (PStr tenant_id) \<and> map_of it ''userId'' = Some (PStr user_id))"


definition table_put :: "item \<Rightarrow> item list \<Rightarrow> item list" where
  "table_put it tbl =
     (if item_key it \<in> set (map item_key tbl)
      then map (\<lambda>x. if item_key x = item_key it then it else x) tbl
      else tbl @ [it])"

definition table_delete :: "pyval \<times> pyval \<Rightarrow> item list \<Rightarrow> item list" where
  "table_delete k tbl = filter (\<lambda>x. item_key x \<noteq> Some k) tbl"

text \<open>
  One call on the table: it is logged, and it raises the fault the services hold for
  that position of the log, if any. A put of an item without the key attributes is
  refused by the service.
\<close>

definition send_request :: "qservices \<Rightarrow> chat_request \<Rightarrow> qworld \<Rightarrow> exn option \<times> qworld" where
  "send_request sv rq w =
     (chat_fault sv (length (chat_log w)), w\<lparr>chat_log := chat_log w @ [rq]\<rparr>)"

definition put_item :: "qservices \<Rightarrow> item \<Rightarrow> qworld \<Rightarrow> (exn + unit) \<times> qworld" where
  "put_item sv it w =
     (case send_request sv (PutItem it) w of
        (Some e, w1) \<Rightarrow> (Inl e, w1)
      | (None, w1) \<Rightarrow>
          (case item_key it of
             None \<Rightarrow> (Inl (ClientError (Some ''ValidationException'') None), w1)
           | Some k \<Rightarrow> (Inr (), w1\<lparr>chat_table := table_put it (chat_table w1)\<rparr>)))"

definition delete_item :: "qservices \<Rightarrow> pyval \<times> pyval \<Rightarrow> qworld \<Rightarrow> (exn + unit) \<times> qworld" where
  "delete_item sv k w =
     (case send_request sv (DeleteItem (fst k) (snd k)) w of
        (Some e, w1) \<Rightarrow> (Inl e, w1)
      | (None, w1) \<Rightarrow> (Inr (), w1\<lparr>chat_table := table_delete k (chat_table w1)\<rparr>))"

text \<open>
  The batch writer (\<open>with table.batch_writer() as batch\<close>), as far as the handlers
  depend on it: the requests reach the table in the order they are added; an
  exception leaves the block with the earlier requests applied; an empty batch sends
  nothing.
\<close>

fun batch_put :: "qservices \<Rightarrow> item list \<Rightarrow> qworld \<Rightarrow> (exn + unit) \<times> qworld" where
  "batch_put sv [] w = (Inr (), w)"
| "batch_put sv (it # rest) w =
     (case put_item sv it w of
        (Inl e, w1) \<Rightarrow> (Inl e, w1)
      | (Inr u, w1) \<Rightarrow> batch_put sv rest w1)"

section \<open>QueryKnowledgeBase: the chat history functions\<close>

text \<open>\<open>os.environ[name]\<close>.\<close>

definition environ_item :: "string \<Rightarrow> string option \<Rightarrow> exn + string" where
  "environ_item name v = (case v of None \<Rightarrow> Inl (KeyError name) | Some s \<Rightarrow> Inr s)"

text \<open>\<open>save_chat_message\<close> (lines 17-45). The table name is looked up outside the \<open>try\<close>.\<close>

definition chat_message ::
  "string \<Rightarrow> pyval \<Rightarrow> string \<Rightarrow> string \<Rightarrow> pyval \<Rightarrow> string \<Rightarrow> pyval \<Rightarrow> int \<Rightarrow> pyval \<Rightarrow> item" where
  "chat_message uid session_id user_id tenant_id project_id message_type content timestamp sources =
     [(''id'', PStr uid), (''sessionId'', session_id), (''tenantId'', PStr tenant_id),
      (''userId'', PStr user_id), (''projectId'', project_id), (''type'', PStr message_type),
      (''content'', content), (''timestamp'', PInt timestamp)]
     @ (if py_truthy sources then [(''sources'', sources)] else [])"

definition save_chat_message ::
  "environ \<Rightarrow> qservices \<Rightarrow> pyval \<Rightarrow> string \<Rightarrow> string \<Rightarrow> pyval \<Rightarrow> string \<Rightarrow> pyval \<Rightarrow> int \<Rightarrow> pyval
     \<Rightarrow> qworld \<Rightarrow> (exn + bool) \<times> qworld" where
  "save_chat_message env sv session_id user_id tenant_id project_id message_type content
       timestamp sources w =
     (case environ_item ''CHAT_HISTORY_TABLE'' (CHAT_HISTORY_TABLE env) of
        Inl e \<Rightarrow> (Inl e, w)
      | Inr table_name \<Rightarrow>
          (let it = chat_message (uuid4 sv (uuid_draws w)) session_id user_id tenant_id
                      project_id message_type content timestamp sources;
               w1 = w\<lparr>uuid_draws := Suc (uuid_draws w)\<rparr>
           in case put_item sv it w1 of
                (Inl e, w2) \<Rightarrow> (Inr False, w2)
              | (Inr u, w2) \<Rightarrow> (Inr True, w2)))"

text \<open>
  \<open>get_chat_history_by_tenant_user\<close> (lines 48-80). The table name is looked up outside
  the \<open>try\<close>. The first statement inside it is the call \<open>chat_history_table.query(...)\<close>,
  whose arguments are evaluated before the call is made. The key condition is written
  \<open>dynamodb.conditions.Key('tenantId').eq(tenant_id) & ...\<close> (lines 57-58), where
  \<open>dynamodb\<close> is the service resource that common_utils creates with
  \<open>resource('dynamodb')\<close> (line 17 there). A service resource has no attribute
  \<open>conditions\<close>: \<open>Key\<close> is a class of the module \<open>boto3.dynamodb.conditions\<close>, which
  CheckKnowledgeBaseStatus.py, Projects.py and ProjectFiles.py import and
  QueryKnowledgeBase.py does not. Evaluating the argument therefore raises
  AttributeError: no query is sent and the pagination loop of lines 65-73 is not
  reached. \<open>history_query\<close> is the outcome of the block of lines 55-76; the handler of
  lines 77-80 turns an exception of the block into the empty list.
\<close>

definition history_query :: "string \<Rightarrow> string \<Rightarrow> exn + item list" where
  "history_query tenant_id user_id = Inl AttributeError"

definition get_chat_history_by_tenant_user ::
  "environ \<Rightarrow> qservices \<Rightarrow> string \<Rightarrow> string \<Rightarrow> qworld \<Rightarrow> (exn + item list) \<times> qworld" where
  "get_chat_history_by_tenant_user env sv tenant_id user_id w =
     (case environ_item ''CHAT_HISTORY_TABLE'' (CHAT_HISTORY_TABLE env) of
        Inl e \<Rightarrow> (Inl e, w)
      | Inr table_name \<Rightarrow>
          (case history_query tenant_id user_id of
             Inl e \<Rightarrow> (Inr [], w)
           | Inr messages \<Rightarrow> (Inr messages, w)))"

text \<open>\<open>batch_delete_items\<close> (common_utils, lines 151-175).\<close>

fun delete_each :: "qservices \<Rightarrow> item list \<Rightarrow> qworld \<Rightarrow> (exn + unit) \<times> qworld" where
  "delete_each sv [] w = (Inr (), w)"
| "delete_each sv (it # rest) w =
     (case map_of it ''tenantId'' of
        None \<Rightarrow> (Inl (KeyError ''tenantId''), w)
      | Some t \<Rightarrow>
          (case map_of it ''id'' of
             None \<Rightarrow> (Inl (KeyError ''id''), w)
           | Some i \<Rightarrow>
               (case delete_item sv (t, i) w of
                  (Inl e, w1) \<Rightarrow> (Inl e, w1)
                | (Inr u, w1) \<Rightarrow> delete_each sv rest w1)))"

definition batch_delete_items :: "qservices \<Rightarrow> string \<Rightarrow> item list \<Rightarrow> qworld \<Rightarrow> bool \<times> qworld" where
  "batch_delete_items sv table_name items w =
     (case delete_each sv items w of
        (Inl e, w1) \<Rightarrow> (False, w1)
      | (Inr u, w1) \<Rightarrow> (True, w1))"

text \<open>\<open>delete_chat_session\<close> (lines 83-101).\<close>

definition delete_chat_session ::
  "environ \<Rightarrow> qservices \<Rightarrow> string \<Rightarrow> string \<Rightarrow> string \<Rightarrow> qworld \<Rightarrow> bool \<times> qworld" where
  "delete_chat_session env sv tenant_id project_id user_id w =
     (case get_chat_history_by_tenant_user env sv tenant_id user_id w of
        (Inl e, w1) \<Rightarrow> (False, w1)
      | (Inr messages, w1) \<Rightarrow>
          (case environ_item ''CHAT_HISTORY_TABLE'' (CHAT_HISTORY_TABLE env) of
             Inl e \<Rightarrow> (False, w1)
           | Inr table_name \<Rightarrow> batch_delete_items sv table_name messages w1))"

text \<open>\<open>handle_delete_session\<close> (lines 411-427).\<close>

definition handle_delete_session ::
  "environ \<Rightarrow> qservices \<Rightarrow> string \<Rightarrow> string \<Rightarrow> string \<Rightarrow> qworld \<Rightarrow> response \<times> qworld" where
  "handle_delete_session env sv user_id tenant_id project_id w =
     (if project_id = [] then
        (create_response 400 (ErrorBody ''Project ID is required''), w)
      else
        (case delete_chat_session env sv tenant_id project_id user_id w of
           (False, w1) \<Rightarrow>
             (create_response 404
                (ErrorBody ''Project chat history not found or not authorized''), w1)
         | (True, w1) \<Rightarrow> (create_response 200 (DeletedBody project_id), w1)))"

text \<open>
  \<open>update_chat_history_session_id\<close> (lines 144-176). \<open>msg.get('sessionId')\<close> is \<open>None\<close>
  for a message without the entry; the updated copy keeps every other entry.
\<close>

definition session_of :: "item \<Rightarrow> pyval" where
  "session_of msg = (case map_of msg ''sessionId'' of Some v \<Rightarrow> v | None \<Rightarrow> PNone)"

definition with_session :: "pyval \<Rightarrow> item \<Rightarrow> item" where
  "with_session new_session_id msg = AList.update ''sessionId'' new_session_id msg"

definition update_chat_history_session_id ::
  "environ \<Rightarrow> qservices \<Rightarrow> string \<Rightarrow> string \<Rightarrow> pyval \<Rightarrow> pyval \<Rightarrow> pyval \<Rightarrow> qworld
     \<Rightarrow> bool \<times> qworld" where
  "update_chat_history_session_id env sv user_id tenant_id results_id old_session_id
       new_session_id w =
     (case environ_item ''CHAT_HISTORY_TABLE'' (CHAT_HISTORY_TABLE env) of
        Inl e \<Rightarrow> (False, w)
      | Inr table_name \<Rightarrow>
          (case get_chat_history_by_tenant_user env sv tenant_id user_id w of
             (Inl e, w1) \<Rightarrow> (False, w1)
           | (Inr messages, w1) \<Rightarrow>
               (let messages_to_update =
                      filter (\<lambda>msg. session_of msg = old_session_id) messages
                in if messages_to_update = [] then (True, w1)
                   else (case batch_put sv (map (with_session new_session_id) messages_to_update) w1 of
                           (Inl e, w2) \<Rightarrow> (False, w2)
                         | (Inr u, w2) \<Rightarrow> (True, w2)))))"

section \<open>QueryKnowledgeBase: handle_query\<close>

text \<open>
  Lines 221-248: the request is either answered at once or yields the query text, the
  project id, the session id and the knowledge base id.
\<close>

datatype query_inputs = Reject response | Proceed pyval pyval pyval string

definition query_inputs :: "environ \<Rightarrow> event \<Rightarrow> exn + query_inputs" where
  "query_inputs env ev =
     bind_exn (json_loads (body ev)) (\<lambda>b.
     bind_exn (py_get b ''query'' PNone) (\<lambda>query.
       if \<not> py_truthy query then
         Inr (Reject (create_response 400 (ErrorBody ''Query text is required'')))
       else
         (let query_params = (if py_truthy (queryStringParameters ev)
                              then queryStringParameters ev else PDict [])
          in bind_exn (py_get query_params ''projectId'' PNone) (\<lambda>p1.
             bind_exn (if py_truthy p1 then Inr p1 else py_get b ''projectId'' PNone) (\<lambda>project_id.
             bind_exn (py_get query_params ''sessionId'' PNone) (\<lambda>s1.
             bind_exn (if py_truthy s1 then Inr s1 else py_get b ''sessionId'' PNone) (\<lambda>session_id.
               if env_missing (KNOWLEDGE_BASE_ID env) then
                 Inr (Reject (create_response 500 (ErrorBody ''Knowledge base ID not configured'')))
               else if \<not> py_truthy project_id then
                 Inr (Reject (create_response 400 (ErrorBody ''Project ID is required'')))
               else
                 Inr (Proceed query project_id session_id
                        (env_value (KNOWLEDGE_BASE_ID env))))))))))"

text \<open>\<open>get_file_ids\<close> (common_utils, lines 123-148): the ids of the items of the one page
  the query returns.\<close>

fun collect_ids :: "item list \<Rightarrow> exn + pyval list" where
  "collect_ids [] = Inr []"
| "collect_ids (it # rest) =
     (case map_of it ''id'' of
        None \<Rightarrow> Inl (KeyError ''id'')
      | Some i \<Rightarrow> bind_exn (collect_ids rest) (\<lambda>ids. Inr (i # ids)))"

definition get_file_ids :: "environ \<Rightarrow> qservices \<Rightarrow> string \<Rightarrow> pyval \<Rightarrow> exn + pyval list" where
  "get_file_ids env sv tenant_id project_id =
     bind_exn (environ_item ''PROJECT_FILES_TABLE'' (PROJECT_FILES_TABLE env)) (\<lambda>table_name.
     bind_exn (files_reply sv tenant_id project_id) collect_ids)"

text \<open>Lines 261-307: the filter, the parameters, and the session id that is passed on
  only when it is a string with something besides white space.\<close>

definition filter_expression :: "string \<Rightarrow> pyval \<Rightarrow> pyval list \<Rightarrow> retrieval_filter" where
  "filter_expression tenant_id project_id file_ids =
     AndAll [Equals ''tenantId'' (PStr tenant_id), Equals ''projectId'' project_id,
             IsIn ''fileId'' file_ids]"

definition supplied_session :: "pyval \<Rightarrow> string option" where
  "supplied_session session_id =
     (case session_id of
        PStr s \<Rightarrow> if s \<noteq> [] \<and> py_strip s \<noteq> [] then Some s else None
      | _ \<Rightarrow> None)"

definition build_params ::
  "string \<Rightarrow> pyval \<Rightarrow> string \<Rightarrow> pyval \<Rightarrow> pyval list \<Rightarrow> pyval \<Rightarrow> retrieve_params" where
  "build_params knowledge_base_id query tenant_id project_id file_ids session_id =
     \<lparr>input_text = query, config_type = ''KNOWLEDGE_BASE'',
      knowledgeBaseId = knowledge_base_id,
      modelArn = ''arn:aws:bedrock:us-east-1::foundation-model/amazon.nova-pro-v1:0'',
      numberOfResults = 5,
      filter_expr = filter_expression tenant_id project_id file_ids,
      sessionId = supplied_session session_id\<rparr>"

text \<open>Lines 331-345: one source per retrieved reference, in the order of the reply.\<close>

fun map_exn :: "('a \<Rightarrow> exn + 'b) \<Rightarrow> 'a list \<Rightarrow> exn + 'b list" where
  "map_exn f [] = Inr []"
| "map_exn f (x # xs) = bind_exn (f x) (\<lambda>y. bind_exn (map_exn f xs) (\<lambda>ys. Inr (y # ys)))"

definition reference_source :: "pyval \<Rightarrow> exn + pyval" where
  "reference_source reference =
     bind_exn (py_get reference ''metadata'' (PDict [])) (\<lambda>metadata.
     bind_exn (py_get metadata ''fileId'' (PStr [])) (\<lambda>file_id.
     bind_exn (py_get reference ''content'' (PDict [])) (\<lambda>content.
     bind_exn (py_get content ''text'' (PStr [])) (\<lambda>text.
       Inr (PDict [(''fileId'', file_id), (''content'', text), (''metadata'', metadata)])))))"

definition citation_sources :: "pyval \<Rightarrow> exn + pyval list" where
  "citation_sources citation =
     bind_exn (py_get citation ''retrievedReferences'' (PList [])) (\<lambda>references.
     bind_exn (py_iter references) (map_exn reference_source))"

definition extract_sources :: "pyval \<Rightarrow> exn + pyval list" where
  "extract_sources response =
     bind_exn (py_get response ''citations'' PNone) (\<lambda>c.
       if py_truthy c then
         bind_exn (py_get response ''citations'' (PList [])) (\<lambda>citations.
         bind_exn (py_iter citations) (\<lambda>cs.
         bind_exn (map_exn citation_sources cs) (\<lambda>found. Inr (concat found))))
       else Inr [])"

text \<open>\<open>response.get('output', {}).get('text', '')\<close> (line 372).\<close>

definition answer_text :: "pyval \<Rightarrow> exn + pyval" where
  "answer_text response =
     bind_exn (py_get response ''output'' (PDict [])) (\<lambda>output. py_get output ''text'' (PStr []))"

text \<open>Lines 331-386: the sources, the two messages, the reply. An exception raised
  here is not caught in \<open>handle_query\<close>.\<close>

definition record_turn ::
  "environ \<Rightarrow> qservices \<Rightarrow> pyval \<Rightarrow> pyval \<Rightarrow> pyval list \<Rightarrow> string \<Rightarrow> string \<Rightarrow> pyval \<Rightarrow> qworld
     \<Rightarrow> (exn + response) \<times> qworld" where
  "record_turn env sv query project_id file_ids user_id tenant_id response w =
     (case extract_sources response of
        Inl e \<Rightarrow> (Inl e, w)
      | Inr sources \<Rightarrow>
          (case py_item response ''sessionId'' of
             Inl e \<Rightarrow> (Inl e, w)
           | Inr session_id \<Rightarrow>
               (let timestamp = time_now sv
                in case save_chat_message env sv session_id user_id tenant_id project_id
                          ''user'' query timestamp PNone w of
                     (Inl e, w1) \<Rightarrow> (Inl e, w1)
                   | (Inr saved_user, w1) \<Rightarrow>
                       (case answer_text response of
                          Inl e \<Rightarrow> (Inl e, w1)
                        | Inr answer \<Rightarrow>
                            (case save_chat_message env sv session_id user_id tenant_id
                                    project_id ''ai'' answer (timestamp + 1) (PList sources) w1 of
                               (Inl e, w2) \<Rightarrow> (Inl e, w2)
                             | (Inr saved_ai, w2) \<Rightarrow>
                                 (Inr (create_response 200
                                         (QueryBody query response file_ids project_id
                                            tenant_id user_id)), w2))))))"

text \<open>\<open>handle_query\<close> (lines 217-386).\<close>

definition handle_query ::
  "environ \<Rightarrow> qservices \<Rightarrow> event \<Rightarrow> string \<Rightarrow> string \<Rightarrow> qworld \<Rightarrow> (exn + response) \<times> qworld" where
  "handle_query env sv ev user_id tenant_id w =
     (case query_inputs env ev of
        Inl e \<Rightarrow> (Inl e, w)
      | Inr (Reject r) \<Rightarrow> (Inr r, w)
      | Inr (Proceed query project_id session_id knowledge_base_id) \<Rightarrow>
          (case get_file_ids env sv tenant_id project_id of
             Inl e \<Rightarrow> (Inl e, w)
           | Inr file_ids \<Rightarrow>
               if file_ids = [] then
                 (Inr (create_response 404 (ErrorBody ''No files found for this project'')), w)
               else
                 (case perform_retrieve_and_generate sv
                         (build_params knowledge_base_id query tenant_id project_id file_ids
                            session_id) w of
                    (Inl e, w1) \<Rightarrow>
                      (Inr (create_response 500 (ErrorWith ''Error querying knowledge base'' e)), w1)
                  | (Inr (response, session_changed), w1) \<Rightarrow>
                      if session_changed \<and> py_truthy session_id then
                        (case py_get response ''sessionId'' PNone of
                           Inl e \<Rightarrow>
                             (Inr (create_response 500
                                     (ErrorWith ''Error querying knowledge base'' e)), w1)
                         | Inr new_session_id \<Rightarrow>
                             (case update_chat_history_session_id env sv user_id tenant_id
                                     project_id session_id new_session_id w1 of
                                (update_success, w2) \<Rightarrow>
                                  record_turn env sv query project_id file_ids user_id tenant_id
                                    response w2))
                      else
                        record_turn env sv query project_id file_ids user_id tenant_id
                          response w1)))"

text \<open>
  The meaning of a filter for the retrieval service, as the claims read it: \<open>andAll\<close>
  holds when every member holds, \<open>equals\<close> when the document's metadata has exactly
  that value under the key, \<open>in\<close> when its value under the key is one of the listed ones.
\<close>

fun filter_admits :: "retrieval_filter \<Rightarrow> (string \<times> pyval) list \<Rightarrow> bool" where
  "filter_admits (AndAll fs) metadata = list_all (\<lambda>f. filter_admits f metadata) fs"
| "filter_admits (Equals k v) metadata = (map_of metadata k = Some v)"
| "filter_admits (IsIn k vs) metadata = (\<exists>v\<in>set vs. map_of metadata k = Some v)"
section \<open>CheckKnowledgeBaseStatus\<close>

text \<open>
  A document submission (lines 159-212): knowledge base and data source (the module's
  constants, read from the environment), the idempotency token, the custom document
  identifier, the object's bucket and key (the URI is \<open>f"s3://{bucket}/{s3_key}"\<close>), and
  the inline attributes as key and string value.
\<close>

record submission =
  sub_knowledgeBaseId :: "string option"
  sub_dataSourceId :: "string option"
  sub_clientToken :: string
  document_id :: pyval
  s3_bucket :: pyval
  s3_key :: pyval
  inlineAttributes :: "(string \<times> pyval) list"

text \<open>Requests that change a store: a \<open>put_item\<close> on the knowledge base files table, a
  call to \<open>ingest_knowledge_base_documents\<close>.\<close>

datatype kb_effect = PutFileRecord item | IngestDocument submission

record iworld =
  kb_log :: "kb_effect list"
  clock_reads :: nat
  token_draws :: nat

text \<open>
  \<open>clock k\<close> is the value of \<open>int(time.time())\<close> at the \<open>k\<close>-th reading of the
  invocation; \<open>put_outcome k r\<close> and \<open>ingest_outcome k s\<close> are the exceptions, if any, with
  which the request logged at position \<open>k\<close> is answered; \<open>ingest_token k\<close> is the \<open>k\<close>-th
  identifier drawn; \<open>project_files_page t p\<close> is the reply to the project-files index
  query, its \<open>Items\<close> if it has the entry.
\<close>

record iservices =
  clock :: "nat \<Rightarrow> int"
  put_outcome :: "nat \<Rightarrow> item \<Rightarrow> exn option"
  ingest_outcome :: "nat \<Rightarrow> submission \<Rightarrow> exn option"
  ingest_token :: "nat \<Rightarrow> string"
  project_files_page :: "string \<Rightarrow> pyval \<Rightarrow> exn + item list option"

text \<open>
  \<open>get_project_files\<close> (lines 85-107): \<open>None\<close> when the table is not configured and on
  every exception, among them the \<open>len\<close> of a missing \<open>Items\<close> entry.
\<close>

definition get_project_files ::
  "environ \<Rightarrow> iservices \<Rightarrow> string \<Rightarrow> string \<Rightarrow> pyval \<Rightarrow> item list option" where
  "get_project_files env sv user_id tenant_id project_id =
     (if env_missing (PROJECT_FILES_TABLE env) then None
      else (case project_files_page sv tenant_id project_id of
              Inl e \<Rightarrow> None
            | Inr None \<Rightarrow> None
            | Inr (Some files) \<Rightarrow> Some files))"

text \<open>
  \<open>find_tenant\<close> (lines 110-114): the generator looks at the tenants in order and stops
  at the first whose \<open>Id\<close> is the tenant id; running out of tenants is the StopIteration
  that the function turns into \<open>None\<close>.
\<close>

fun first_tenant :: "string \<Rightarrow> pyval list \<Rightarrow> exn + pyval" where
  "first_tenant tenant_id [] = Inr PNone"
| "first_tenant tenant_id (tenant # rest) =
     bind_exn (py_item tenant ''Id'') (\<lambda>i.
       if i = PStr tenant_id then Inr tenant else first_tenant tenant_id rest)"

definition find_tenant :: "string \<Rightarrow> pyval \<Rightarrow> exn + pyval" where
  "find_tenant tenant_id tenants = bind_exn (py_iter tenants) (first_tenant tenant_id)"

text \<open>Lines 122-123, and the conversion of line 124.\<close>

definition configured_tenant :: "environ \<Rightarrow> string \<Rightarrow> exn + pyval" where
  "configured_tenant env tenant_id =
     bind_exn (json_loads (TENANTS env)) (\<lambda>cfg.
     bind_exn (py_item cfg ''Tenants'') (\<lambda>tenants.
       find_tenant tenant_id tenants))"

definition files_ttl_hours :: "pyval \<Rightarrow> exn + int" where
  "files_ttl_hours tenant = bind_exn (py_item tenant ''FilesTTLHours'') py_int"

definition configured_hours :: "environ \<Rightarrow> string \<Rightarrow> exn + int" where
  "configured_hours env tenant_id = bind_exn (configured_tenant env tenant_id) files_ttl_hours"

text \<open>The handler of lines 125-128: a ValueError is replaced, anything else passes.\<close>

definition tenants_error :: "exn \<Rightarrow> exn" where
  "tenants_error e =
     (if is_ValueError e then ValueError ''TENANTS must be a valid json object'' else e)"

definition file_record :: "string \<Rightarrow> string \<Rightarrow> pyval \<Rightarrow> pyval \<Rightarrow> int \<Rightarrow> int \<Rightarrow> item" where
  "file_record user_id tenant_id project_id file_id created_at ttl =
     [(''id'', file_id), (''userId'', PStr user_id), (''tenantId'', PStr tenant_id),
      (''projectId'', project_id), (''documentStatus'', PStr ''ready''),
      (''createdAt'', PInt created_at), (''ttl'', PInt ttl)]"

definition scoping_tags :: "string \<Rightarrow> string \<Rightarrow> pyval \<Rightarrow> pyval \<Rightarrow> (string \<times> pyval) list" where
  "scoping_tags user_id tenant_id project_id file_id =
     [(''userId'', PStr user_id), (''tenantId'', PStr tenant_id),
      (''projectId'', project_id), (''fileId'', file_id)]"

text \<open>
  The loop of lines 135-215. Each request is logged when it is sent; an exception ends
  the loop and is raised again by the handler of lines 220-224.
\<close>

fun ingest_loop ::
  "environ \<Rightarrow> iservices \<Rightarrow> string \<Rightarrow> string \<Rightarrow> pyval \<Rightarrow> int \<Rightarrow> item list \<Rightarrow> iworld
     \<Rightarrow> (exn + unit) \<times> iworld" where
  "ingest_loop env sv user_id tenant_id project_id ttl [] w = (Inr (), w)"
| "ingest_loop env sv user_id tenant_id project_id ttl (file # rest) w =
     (case map_of file ''id'' of
        None \<Rightarrow> (Inl (KeyError ''id''), w)
      | Some file_id \<Rightarrow>
          (let s3_key = (case map_of file ''s3Key'' of Some v \<Rightarrow> v | None \<Rightarrow> PNone);
               bucket = (case map_of file ''bucket'' of Some v \<Rightarrow> v | None \<Rightarrow> PNone);
               record = file_record user_id tenant_id project_id file_id
                          (clock sv (clock_reads w)) ttl;
               w1 = w\<lparr>kb_log := kb_log w @ [PutFileRecord record],
                       clock_reads := Suc (clock_reads w)\<rparr>
           in case put_outcome sv (length (kb_log w)) record of
                Some e \<Rightarrow> (Inl e, w1)
              | None \<Rightarrow>
                  (let document =
                         \<lparr>sub_knowledgeBaseId = KNOWLEDGE_BASE_ID env,
                          sub_dataSourceId = DATA_SOURCE_ID env,
                          sub_clientToken = ingest_token sv (token_draws w1),
                          document_id = file_id, s3_bucket = bucket, s3_key = s3_key,
                          inlineAttributes =
                            scoping_tags user_id tenant_id project_id file_id\<rparr>;
                       w2 = w1\<lparr>kb_log := kb_log w1 @ [IngestDocument document],
                                token_draws := Suc (token_draws w1)\<rparr>
                   in case ingest_outcome sv (length (kb_log w1)) document of
                        Some e \<Rightarrow> (Inl e, w2)
                      | None \<Rightarrow> ingest_loop env sv user_id tenant_id project_id ttl rest w2)))"

text \<open>
  \<open>ingest_files\<close> (lines 117-224). In line 124 the clock is read before the tenant's
  \<open>FilesTTLHours\<close> is looked up and converted.
\<close>

definition ingest_files ::
  "environ \<Rightarrow> iservices \<Rightarrow> string \<Rightarrow> string \<Rightarrow> pyval \<Rightarrow> item list \<Rightarrow> iworld
     \<Rightarrow> (exn + unit) \<times> iworld" where
  "ingest_files env sv user_id tenant_id project_id files w =
     (case configured_tenant env tenant_id of
        Inl e \<Rightarrow> (Inl (tenants_error e), w)
      | Inr tenant \<Rightarrow>
          (let now = clock sv (clock_reads w);
               w1 = w\<lparr>clock_reads := Suc (clock_reads w)\<rparr>
           in case files_ttl_hours tenant of
                Inl e \<Rightarrow> (Inl (tenants_error e), w1)
              | Inr hours \<Rightarrow>
                  ingest_loop env sv user_id tenant_id project_id (now + hours * 3600) files w1))"

text \<open>The handler (lines 30-82).\<close>

definition handler :: "environ \<Rightarrow> iservices \<Rightarrow> event \<Rightarrow> iworld \<Rightarrow> response \<times> iworld" where
  "handler env sv ev w =
     (if httpMethod ev = Some ''OPTIONS'' then (create_response 200 EmptyBody, w)
      else
        (case get_user_tenant_from_claims ev of
           Inl e \<Rightarrow> (handle_exception e, w)
         | Inr (user_id, tenant_id) \<Rightarrow>
             (case bind_exn (json_loads (body ev)) (\<lambda>b. py_get b ''projectId'' PNone) of
                Inl e \<Rightarrow> (handle_exception e, w)
              | Inr project_id \<Rightarrow>
                  if env_missing (KNOWLEDGE_BASE_ID env) then
                    (create_response 500 (ErrorBody ''Knowledge base ID not configured''), w)
                  else if user_id = [] then
                    (create_response 400 (ErrorBody ''User ID is required''), w)
                  else if \<not> py_truthy project_id then
                    (create_response 400 (ErrorBody ''Report project ID is required''), w)
                  else
                    (case get_project_files env sv user_id tenant_id project_id of
                       None \<Rightarrow> (create_response 400 (ErrorBody ''Project requires files''), w)
                     | Some selected_files \<Rightarrow>
                         if length selected_files = 0 then
                           (create_response 400 (ErrorBody ''Project requires files''), w)
                         else
                           (case ingest_files env sv user_id tenant_id project_id
                                   selected_files w of
                              (Inl e, w') \<Rightarrow> (handle_exception e, w')
                            | (Inr u, w') \<Rightarrow> (create_response 200 ReadyBody, w'))))))"

text \<open>
  The claims' vocabulary. The file records written and the documents submitted, read
  off a log; an integer attribute of an item; whether a decoded configuration lists a
  tenant.
\<close>

definition records_written :: "kb_effect list \<Rightarrow> item list" where
  "records_written log = concat (map (\<lambda>x. case x of PutFileRecord r \<Rightarrow> [r] | _ \<Rightarrow> []) log)"

definition documents_submitted :: "kb_effect list \<Rightarrow> submission list" where
  "documents_submitted log = concat (map (\<lambda>x. case x of IngestDocument s \<Rightarrow> [s] | _ \<Rightarrow> []) log)"

definition int_attribute :: "item \<Rightarrow> string \<Rightarrow> int option" where
  "int_attribute it k = (case map_of it k of Some (PInt n) \<Rightarrow> Some n | _ \<Rightarrow> None)"

definition lists_tenant :: "pyval \<Rightarrow> string \<Rightarrow> bool" where
  "lists_tenant cfg tenant_id =
     (case field cfg ''Tenants'' of
        PList ts \<Rightarrow> list_ex (\<lambda>t. field t ''Id'' = PStr tenant_id) ts
      | _ \<Rightarrow> False)"

section \<open>CleanupKnowledgeBase\<close>

text \<open>
  A call to \<open>delete_knowledge_base_documents\<close> (lines 94-106): the idempotency token, the
  knowledge base, the data source, and the custom identifier of the one document
  named.
\<close>

record delete_call =
  clientToken :: string
  del_knowledgeBaseId :: string
  del_dataSourceId :: string
  custom_id :: pyval

text \<open>
  \<open>delete_outcome k c\<close> is the exception, if any, raised by the call \<open>c\<close> made after \<open>k\<close>
  earlier calls; \<open>delete_token k\<close> is the token drawn for it.
\<close>

record reaper_services =
  delete_outcome :: "nat \<Rightarrow> delete_call \<Rightarrow> exn option"
  delete_token :: "nat \<Rightarrow> string"

text \<open>
  Lines 67-87 for one record: \<open>Some file_id\<close> when the record reaches the deletion,
  \<open>None\<close> when it is skipped. A \<open>.get\<close> on anything but a dict raises.
\<close>

definition is_ttl_identity :: "pyval \<Rightarrow> exn + bool" where
  "is_ttl_identity user_identity =
     bind_exn (py_get user_identity ''type'' PNone) (\<lambda>ty.
       if ty = PStr ''Service'' then
         bind_exn (py_get user_identity ''principalId'' PNone) (\<lambda>principal.
           Inr (principal = PStr ''dynamodb.amazonaws.com''))
       else Inr False)"

definition examine_record :: "pyval \<Rightarrow> exn + pyval option" where
  "examine_record record =
     bind_exn (py_get record ''eventName'' PNone) (\<lambda>event_name.
       if event_name = PStr ''REMOVE'' then
         bind_exn (py_get record ''userIdentity'' (PDict [])) (\<lambda>user_identity.
         bind_exn (is_ttl_identity user_identity) (\<lambda>ttl.
           if ttl then
             bind_exn (py_get record ''dynamodb'' (PDict [])) (\<lambda>d1.
             bind_exn (py_get d1 ''OldImage'' (PDict [])) (\<lambda>old_image.
             bind_exn (py_get record ''dynamodb'' (PDict [])) (\<lambda>d2.
             bind_exn (py_get d2 ''Keys'' (PDict [])) (\<lambda>keys.
             bind_exn (py_get keys ''id'' (PDict [])) (\<lambda>id_attr.
             bind_exn (py_get id_attr ''S'' PNone) (\<lambda>file_id.
             bind_exn (py_get keys ''tenantId'' (PDict [])) (\<lambda>tenant_attr.
             bind_exn (py_get tenant_attr ''S'' PNone) (\<lambda>tenant_id.
             bind_exn (py_in ''projectId'' old_image) (\<lambda>has_project.
             bind_exn (if has_project then
                         bind_exn (py_get old_image ''projectId'' (PDict [])) (\<lambda>p.
                           py_get p ''S'' PNone)
                       else Inr PNone) (\<lambda>project_id.
               if \<not> py_truthy file_id then Inr None
               else if \<not> py_truthy tenant_id then Inr None
               else Inr (Some file_id)))))))))))
           else Inr None))
       else Inr None)"

text \<open>
  The loop of lines 65-125 with its two counters and the log of deletion calls. A
  failing deletion is caught inside the loop (lines 112-121); an exception raised while
  a record is examined leaves the loop.
\<close>

fun process_records ::
  "string \<Rightarrow> string \<Rightarrow> reaper_services \<Rightarrow> pyval list \<Rightarrow> nat \<Rightarrow> nat \<Rightarrow> delete_call list
     \<Rightarrow> (exn + nat \<times> nat) \<times> delete_call list" where
  "process_records kb ds sv [] processed_count error_count log =
     (Inr (processed_count, error_count), log)"
| "process_records kb ds sv (record # rest) processed_count error_count log =
     (case examine_record record of
        Inl e \<Rightarrow> (Inl e, log)
      | Inr None \<Rightarrow> process_records kb ds sv rest processed_count error_count log
      | Inr (Some file_id) \<Rightarrow>
          (let call = \<lparr>clientToken = delete_token sv (length log),
                       del_knowledgeBaseId = kb, del_dataSourceId = ds,
                       custom_id = file_id\<rparr>
           in case delete_outcome sv (length log) call of
                None \<Rightarrow>
                  process_records kb ds sv rest (processed_count + 1) error_count (log @ [call])
              | Some e \<Rightarrow>
                  process_records kb ds sv rest processed_count (error_count + 1) (log @ [call])))"

text \<open>Lines 16-148; \<open>records\<close> is \<open>event.get('Records', [])\<close>.\<close>

definition lambda_handler ::
  "environ \<Rightarrow> reaper_services \<Rightarrow> pyval list \<Rightarrow> delete_call list \<Rightarrow> response \<times> delete_call list" where
  "lambda_handler env sv records log =
     (if env_missing (KNOWLEDGE_BASE_ID env) then
        (\<lparr>statusCode = 500, rbody = ErrorBody ''Knowledge base ID not configured''\<rparr>, log)
      else if env_missing (DATA_SOURCE_ID env) then
        (\<lparr>statusCode = 500, rbody = ErrorBody ''Data source ID not configured''\<rparr>, log)
      else if env_missing (KNOWLEDGE_BASE_FILES_TABLE env) then
        (\<lparr>statusCode = 500,
          rbody = ErrorBody ''Knowledge base files table name not configured''\<rparr>, log)
      else if length records = 0 then
        (\<lparr>statusCode = 200, rbody = MessageBody ''No records to process''\<rparr>, log)
      else
        (case process_records (env_value (KNOWLEDGE_BASE_ID env)) (env_value (DATA_SOURCE_ID env)) sv
                records 0 0 log of
           (Inr (processed_count, error_count), log') \<Rightarrow>
             (\<lparr>statusCode = 200, rbody = ProcessedBody processed_count error_count\<rparr>, log')
         | (Inl e, log') \<Rightarrow>
             (case e of
                ClientError code message \<Rightarrow>
                  (\<lparr>statusCode = 500, rbody = ErrorWith ''AWS Client Error'' e\<rparr>, log')
              | _ \<Rightarrow>
                  (\<lparr>statusCode = 500,
                    rbody = ErrorWith ''Error processing TTL expiration events'' e\<rparr>, log'))))"

text \<open>
  The claim's vocabulary, read off a change record. A record is a system-initiated removal when it is a
  REMOVE whose actor is the store's own service principal; it names an expired file
  when, besides, its key carries a file id and a tenant id.
\<close>

definition system_initiated_removal :: "pyval \<Rightarrow> bool" where
  "system_initiated_removal r =
     (field r ''eventName'' = PStr ''REMOVE''
      \<and> field (field r ''userIdentity'') ''type'' = PStr ''Service''
      \<and> field (field r ''userIdentity'') ''principalId'' = PStr ''dynamodb.amazonaws.com'')"

definition key_attribute :: "pyval \<Rightarrow> string \<Rightarrow> pyval" where
  "key_attribute r k = field (field (field (field r ''dynamodb'') ''Keys'') k) ''S''"

definition names_expired_file :: "pyval \<Rightarrow> bool" where
  "names_expired_file r =
     (system_initiated_removal r
      \<and> py_truthy (key_attribute r ''id'') \<and> py_truthy (key_attribute r ''tenantId''))"

text \<open>
  The shape of a change record as the stream delivers it: a dict whose \<open>userIdentity\<close>
  and \<open>dynamodb\<close> entries, and below them \<open>Keys\<close>, \<open>OldImage\<close> and the attributes read,
  are dicts where they are present.
\<close>

definition dict_or_absent :: "pyval \<Rightarrow> string \<Rightarrow> bool" where
  "dict_or_absent d k =
     (case d of
        PDict al \<Rightarrow> (case map_of al k of None \<Rightarrow> True | Some (PDict x) \<Rightarrow> True | Some _ \<Rightarrow> False)
      | _ \<Rightarrow> False)"

definition sub_dict :: "pyval \<Rightarrow> string \<Rightarrow> pyval" where
  "sub_dict d k = (case field d k of PDict x \<Rightarrow> PDict x | _ \<Rightarrow> PDict [])"

definition stream_record :: "pyval \<Rightarrow> bool" where
  "stream_record r =
     (dict_or_absent r ''userIdentity'' \<and> dict_or_absent r ''dynamodb''
      \<and> dict_or_absent (sub_dict r ''dynamodb'') ''Keys''
      \<and> dict_or_absent (sub_dict r ''dynamodb'') ''OldImage''
      \<and> dict_or_absent (sub_dict (sub_dict r ''dynamodb'') ''Keys'') ''id''
      \<and> dict_or_absent (sub_dict (sub_dict r ''dynamodb'') ''Keys'') ''tenantId''
      \<and> dict_or_absent (sub_dict (sub_dict r ''dynamodb'') ''OldImage'') ''projectId'')"

text \<open>
  The deletion calls expected for a list of qualifying records when \<open>n\<close> calls have
  been made before: one per record, in order, each naming the record's file id. The
  calls among them that the service accepts, and those it fails, are counted by their
  position in the log.
\<close>

definition deletion_calls ::
  "string \<Rightarrow> string \<Rightarrow> reaper_services \<Rightarrow> nat \<Rightarrow> pyval list \<Rightarrow> delete_call list" where
  "deletion_calls kb ds sv n qualifying =
     map (\<lambda>(k, r). \<lparr>clientToken = delete_token sv k, del_knowledgeBaseId = kb,
                     del_dataSourceId = ds, custom_id = key_attribute r ''id''\<rparr>)
         (enumerate n qualifying)"

definition accepted_calls :: "reaper_services \<Rightarrow> nat \<Rightarrow> delete_call list \<Rightarrow> nat" where
  "accepted_calls sv n calls =
     length (filter (\<lambda>(k, c). delete_outcome sv k c = None) (enumerate n calls))"

definition failed_calls :: "reaper_services \<Rightarrow> nat \<Rightarrow> delete_call list \<Rightarrow> nat" where
  "failed_calls sv n calls =
     length (filter (\<lambda>(k, c). delete_outcome sv k c \<noteq> None) (enumerate n calls))"

section \<open>Scenarios\<close>

text \<open>Concrete invocations on which the theorems below are exercised.\<close>

definition stale_session_error :: exn where
  "stale_session_error =
     ClientError (Some ''ValidationException'') (Some ''Session with Id s-old is not valid'')"

definition demo_filter :: retrieval_filter where
  "demo_filter =
     AndAll [Equals ''tenantId'' (PStr ''t1''), Equals ''projectId'' (PStr ''p1''),
             IsIn ''fileId'' [PStr ''f1'']]"

definition demo_params :: retrieve_params where
  "demo_params =
     \<lparr>input_text = PStr ''hello'', config_type = ''KNOWLEDGE_BASE'',
      knowledgeBaseId = ''kb'',
      modelArn = ''arn:aws:bedrock:us-east-1::foundation-model/amazon.nova-pro-v1:0'',
      numberOfResults = 5, filter_expr = demo_filter, sessionId = Some ''s-old''\<rparr>"

definition demo_reply :: pyval where
  "demo_reply =
     PDict [(''sessionId'', PStr ''s-new''),
            (''output'', PDict [(''text'', PStr ''answer'')]),
            (''citations'',
               PList [PDict [(''retrievedReferences'',
                  PList [PDict [(''content'', PDict [(''text'', PStr ''passage'')]),
                                (''metadata'', PDict [(''fileId'', PStr ''f1'')])]])]])]"

definition demo_sources :: "pyval list" where
  "demo_sources =
     [PDict [(''fileId'', PStr ''f1''), (''content'', PStr ''passage''),
             (''metadata'', PDict [(''fileId'', PStr ''f1'')])]]"

definition empty_qworld :: qworld where
  "empty_qworld = \<lparr>chat_table = [], chat_log = [], rag_log = [], uuid_draws = 0\<rparr>"

definition recovering_services :: qservices where
  "recovering_services =
     \<lparr>rag_reply = (\<lambda>k p. if sessionId p = None then Inr demo_reply else Inl stale_session_error),
      chat_fault = (\<lambda>k. None),
      files_reply = (\<lambda>t p. if p = PStr ''p1'' then Inr [[(''id'', PStr ''f1'')]] else Inr []),
      uuid4 = (\<lambda>k. if k = 0 then ''u0'' else ''u1''),
      time_now = 1000\<rparr>"

definition demo_env :: environ where
  "demo_env =
     \<lparr>KNOWLEDGE_BASE_ID = Some ''kb'', DATA_SOURCE_ID = Some ''ds'',
      KNOWLEDGE_BASE_FILES_TABLE = Some ''kb-files'', PROJECT_FILES_TABLE = Some ''project-files'',
      CHAT_HISTORY_TABLE = Some ''chat-history'',
      TENANTS = Decoded (PDict [(''Tenants'',
                  PList [PDict [(''Id'', PStr ''t0''), (''FilesTTLHours'', PInt 24)],
                         PDict [(''Id'', PStr ''t1''), (''FilesTTLHours'', PStr ''1'')]])])\<rparr>"

definition removal_record :: "string \<Rightarrow> string \<Rightarrow> (string \<times> pyval) list \<Rightarrow> pyval" where
  "removal_record event_name file_id identity =
     PDict ([(''eventName'', PStr event_name),
             (''dynamodb'',
                PDict [(''Keys'', PDict [(''id'', PDict [(''S'', PStr file_id)]),
                                         (''tenantId'', PDict [(''S'', PStr ''t1'')])]),
                       (''OldImage'', PDict [(''projectId'', PDict [(''S'', PStr ''p1'')])])])]
            @ identity)"

definition ttl_identity :: "(string \<times> pyval) list" where
  "ttl_identity =
     [(''userIdentity'',
         PDict [(''type'', PStr ''Service''), (''principalId'', PStr ''dynamodb.amazonaws.com'')])]"

definition mixed_batch :: "pyval list" where
  "mixed_batch =
     [removal_record ''REMOVE'' ''f1'' ttl_identity,
      removal_record ''REMOVE'' ''f2'' [],
      removal_record ''INSERT'' ''f3'' [],
      removal_record ''REMOVE'' ''f4'' ttl_identity]"

definition flaky_reaper :: reaper_services where
  "flaky_reaper =
     \<lparr>delete_outcome = (\<lambda>k c. if k = 0 then Some (ClientError (Some ''ThrottlingException'') None)
                               else None),
      delete_token = (\<lambda>k. if k = 0 then ''tok0'' else ''tok1'')\<rparr>"

definition fresh_iworld :: iworld where
  "fresh_iworld = \<lparr>kb_log = [], clock_reads = 0, token_draws = 0\<rparr>"

definition project_file :: "string \<Rightarrow> item" where
  "project_file file_id =
     [(''id'', PStr file_id), (''tenantId'', PStr ''t0''), (''projectId'', PStr ''p1''),
      (''bucket'', PStr ''uploads''), (''s3Key'', PStr file_id)]"

text \<open>Services whose clock advances by one second from one reading to the next.\<close>

definition ticking_services :: iservices where
  "ticking_services =
     \<lparr>clock = (\<lambda>k. 100 + int k),
      put_outcome = (\<lambda>k r. None),
      ingest_outcome = (\<lambda>k s. None),
      ingest_token = (\<lambda>k. ''token''),
      project_files_page = (\<lambda>t p. Inr (Some (if p = PStr ''p1'' then [project_file ''f1''] else [])))\<rparr>"

definition created_and_ttl :: "item \<Rightarrow> int option \<times> int option" where
  "created_and_ttl r = (int_attribute r ''createdAt'', int_attribute r ''ttl'')"

definition ingest_event :: "string \<Rightarrow> event" where
  "ingest_event project =
     \<lparr>httpMethod = Some ''POST'',
      claims = Some [(''sub'', ''u1''), (''custom:tenantId'', ''t0'')],
      body = Decoded (PDict [(''projectId'', PStr project)]),
      queryStringParameters = PNone\<rparr>"

definition past_message :: "string \<Rightarrow> string \<Rightarrow> string \<Rightarrow> int \<Rightarrow> item" where
  "past_message uid user_id session ts =
     chat_message uid (PStr session) user_id ''t1'' (PStr ''p1'') ''user'' (PStr ''earlier'') ts PNone"

definition history_world :: qworld where
  "history_world =
     \<lparr>chat_table = [past_message ''m30'' ''u1'' ''s-old'' 30,
                    past_message ''m10'' ''u1'' ''s-old'' 10,
                    past_message ''m15'' ''u2'' ''s-old'' 15,
                    past_message ''m20'' ''u1'' ''s-other'' 20],
      chat_log = [], rag_log = [], uuid_draws = 0\<rparr>"


definition query_event :: "string \<Rightarrow> event" where
  "query_event project =
     \<lparr>httpMethod = Some ''POST'',
      claims = Some [(''sub'', ''u1''), (''custom:tenantId'', ''t1'')],
      body = Decoded (PDict [(''query'', PStr ''hello''), (''projectId'', PStr project),
                             (''sessionId'', PStr ''s-old'')]),
      queryStringParameters = PNone\<rparr>"

section \<open>Facts about the built-ins\<close>

lemma bind_exn_simps [simp]:
  "bind_exn (Inl e) f = Inl e" "bind_exn (Inr v) f = f v"
  by (simp_all add: bind_exn_def)

lemma py_item_Inr: "py_item d k = Inr v \<Longrightarrow> \<exists>al. d = PDict al \<and> map_of al k = Some v"
  by (auto simp: py_item_def split: pyval.splits option.splits)

lemma py_item_field: "py_item d k = Inr v \<Longrightarrow> field d k = v"
  by (auto simp: py_item_def field_def split: pyval.splits option.splits)

section \<open>Session recovery\<close>

lemma is_invalid_session_error_ClientError:
  "is_invalid_session_error e \<Longrightarrow> \<exists>code message. e = ClientError code message"
  by (cases e) (simp_all add: is_invalid_session_error_def)

text \<open>
  Claim C2. Let the first attempt fail with \<open>e\<close>. If \<open>e\<close> is the session-not-recognised
  validation error and a \<open>sessionId\<close> was supplied, exactly two calls are made, the second
  with \<open>sessionId\<close> removed and everything else as before, and the outcome of the second
  call is the outcome of the executor: its reply marked as a changed session, or its
  failure, unrecovered. In every other case (another failure class, or that error with
  no \<open>sessionId\<close> supplied) exactly one call is made and \<open>e\<close> propagates. The executor
  never makes a third call.
\<close>

theorem perform_retrieve_and_generate_retries_once:
  fixes sv :: qservices and params :: retrieve_params and w :: qworld
  assumes first: "rag_reply sv (length (rag_log w)) params = Inl e"
  shows "(is_invalid_session_error e \<and> sessionId params \<noteq> None \<longrightarrow>
            rag_log (snd (perform_retrieve_and_generate sv params w))
              = rag_log w @ [params, params\<lparr>sessionId := None\<rparr>]
          \<and> fst (perform_retrieve_and_generate sv params w)
              = (case rag_reply sv (Suc (length (rag_log w))) (params\<lparr>sessionId := None\<rparr>) of
                   Inr response \<Rightarrow> Inr (response, True)
                 | Inl e2 \<Rightarrow> Inl e2))
       \<and> (\<not> (is_invalid_session_error e \<and> sessionId params \<noteq> None) \<longrightarrow>
            rag_log (snd (perform_retrieve_and_generate sv params w)) = rag_log w @ [params]
          \<and> fst (perform_retrieve_and_generate sv params w) = Inl e)
       \<and> length (rag_log (snd (perform_retrieve_and_generate sv params w)))
            \<le> length (rag_log w) + 2"
proof (cases "is_invalid_session_error e \<and> sessionId params \<noteq> None")
  case True
  then obtain code message s where e: "e = ClientError code message"
    and s: "sessionId params = Some s"
    using is_invalid_session_error_ClientError by blast
  from True first e s show ?thesis
    by (simp add: perform_retrieve_and_generate_def call_rag_def split: sum.split)
next
  case False
  with first show ?thesis
    by (cases e)
      (auto simp: perform_retrieve_and_generate_def call_rag_def split: option.split)
qed

theorem perform_retrieve_and_generate_retries_once_witness:
  "rag_log (snd (perform_retrieve_and_generate recovering_services demo_params empty_qworld))
     = [demo_params, demo_params\<lparr>sessionId := None\<rparr>]
   \<and> fst (perform_retrieve_and_generate recovering_services demo_params empty_qworld)
     = Inr (demo_reply, True)"
proof -
  have first: "rag_reply recovering_services (length (rag_log empty_qworld)) demo_params
                 = Inl stale_session_error"
    by (simp add: recovering_services_def demo_params_def)
  have stale: "is_invalid_session_error stale_session_error \<and> sessionId demo_params \<noteq> None"
    by (simp add: is_invalid_session_error_def stale_session_error_def demo_params_def)
  from perform_retrieve_and_generate_retries_once [OF first] stale show ?thesis
    by (simp add: recovering_services_def empty_qworld_def)
qed

section \<open>Ingestion\<close>

lemma first_tenant_found:
  "first_tenant tenant_id ts = Inr t \<Longrightarrow> t \<noteq> PNone \<Longrightarrow>
     t \<in> set ts \<and> field t ''Id'' = PStr tenant_id"
proof (induction ts)
  case Nil
  then show ?case by simp
next
  case (Cons a ts)
  show ?case
  proof (cases "py_item a ''Id''")
    case (Inl e)
    with Cons.prems show ?thesis by simp
  next
    case (Inr i)
    with Cons show ?thesis
      by (cases "i = PStr tenant_id") (auto dest: py_item_field)
  qed
qed

lemma first_tenant_strings:
  "first_tenant tenant_id (map (\<lambda>x. PStr (f x)) xs) = Inr t \<Longrightarrow> t = PNone"
  by (cases xs) (simp_all add: py_item_def)

lemma find_tenant_unlisted:
  assumes "find_tenant tenant_id tenants = Inr t" and "t \<noteq> PNone"
  shows "\<exists>ts. tenants = PList ts \<and> list_ex (\<lambda>t. field t ''Id'' = PStr tenant_id) ts"
proof (cases tenants)
  case (PList ts)
  with assms show ?thesis
    by (auto simp: find_tenant_def py_iter_def list_ex_iff dest: first_tenant_found)
next
  case (PDict al)
  with assms first_tenant_strings [of tenant_id fst al t] show ?thesis
    by (simp add: find_tenant_def py_iter_def)
next
  case (PStr s)
  with assms first_tenant_strings [of tenant_id "\<lambda>c. [c]" s t] show ?thesis
    by (simp add: find_tenant_def py_iter_def)
qed (use assms in \<open>simp_all add: find_tenant_def py_iter_def\<close>)

lemma configured_tenant_listed:
  assumes "configured_tenant env tenant_id = Inr t" and "t \<noteq> PNone"
  shows "\<exists>cfg. TENANTS env = Decoded cfg \<and> lists_tenant cfg tenant_id"
proof -
  from assms(1) obtain cfg where cfg: "TENANTS env = Decoded cfg"
    by (cases "TENANTS env") (simp_all add: configured_tenant_def json_loads_def)
  with assms(1) obtain tenants where t: "py_item cfg ''Tenants'' = Inr tenants"
    and f: "find_tenant tenant_id tenants = Inr t"
    by (cases "py_item cfg ''Tenants''") (simp_all add: configured_tenant_def json_loads_def)
  from find_tenant_unlisted [OF f assms(2)] py_item_field [OF t] cfg show ?thesis
    by (auto simp: lists_tenant_def)
qed

lemma configured_hours_listed:
  assumes "configured_hours env tenant_id = Inr h"
  shows "\<exists>cfg. TENANTS env = Decoded cfg \<and> lists_tenant cfg tenant_id"
proof -
  from assms obtain t where t: "configured_tenant env tenant_id = Inr t"
    and h: "files_ttl_hours t = Inr h"
    by (cases "configured_tenant env tenant_id") (simp_all add: configured_hours_def)
  from h have "t \<noteq> PNone"
    by (auto simp: files_ttl_hours_def py_item_def)
  with t show ?thesis by (rule configured_tenant_listed)
qed

lemma ingest_files_without_hours:
  assumes "configured_hours env tenant_id = Inl e"
  shows "fst (ingest_files env sv user_id tenant_id project_id files w) = Inl (tenants_error e)
       \<and> kb_log (snd (ingest_files env sv user_id tenant_id project_id files w)) = kb_log w"
  using assms
  by (auto simp: ingest_files_def configured_hours_def Let_def split: sum.splits)

text \<open>
  Claim C7. If the tenant configuration is absent, cannot be decoded, does not list the
  tenant, or in any other way fails to give the tenant's retention in hours, then
  \<open>ingest_files\<close> raises and the log of store requests is what it was: no file record
  has been written and no document submitted.
\<close>

theorem ingest_files_fails_fast:
  assumes "TENANTS env = NoText \<or> TENANTS env = Undecodable
           \<or> (\<exists>cfg. TENANTS env = Decoded cfg \<and> \<not> lists_tenant cfg tenant_id)
           \<or> (\<exists>e. configured_hours env tenant_id = Inl e)"
  shows "(\<exists>e. fst (ingest_files env sv user_id tenant_id project_id files w) = Inl e)
       \<and> kb_log (snd (ingest_files env sv user_id tenant_id project_id files w)) = kb_log w"
proof -
  have "\<exists>e. configured_hours env tenant_id = Inl e"
  proof (cases "configured_hours env tenant_id")
    case (Inl e)
    then show ?thesis by blast
  next
    case (Inr h)
    from configured_hours_listed [OF Inr] assms Inr show ?thesis
      by auto
  qed
  then show ?thesis
    using ingest_files_without_hours by blast
qed

theorem ingest_files_fails_fast_witness:
  "(\<exists>e. fst (ingest_files (demo_env\<lparr>TENANTS := Undecodable\<rparr>) ticking_services ''u1'' ''t0''
              (PStr ''p1'') [project_file ''f1''] fresh_iworld) = Inl e)
   \<and> kb_log (snd (ingest_files (demo_env\<lparr>TENANTS := Undecodable\<rparr>) ticking_services ''u1'' ''t0''
              (PStr ''p1'') [project_file ''f1''] fresh_iworld)) = []"
proof -
  have "TENANTS (demo_env\<lparr>TENANTS := Undecodable\<rparr>) = Undecodable"
    by simp
  then have h: "TENANTS (demo_env\<lparr>TENANTS := Undecodable\<rparr>) = NoText
      \<or> TENANTS (demo_env\<lparr>TENANTS := Undecodable\<rparr>) = Undecodable
      \<or> (\<exists>cfg. TENANTS (demo_env\<lparr>TENANTS := Undecodable\<rparr>) = Decoded cfg \<and> \<not> lists_tenant cfg ''t0'')
      \<or> (\<exists>e. configured_hours (demo_env\<lparr>TENANTS := Undecodable\<rparr>) ''t0'' = Inl e)"
    by blast
  from ingest_files_fails_fast [OF h, of ticking_services "''u1''" "PStr ''p1''"
      "[project_file ''f1'']" fresh_iworld]
  show ?thesis
    by (simp add: fresh_iworld_def)
qed

text \<open>
  Claim C8. For a request that is not a preflight, carries the caller's claims and a
  body that decodes to a dict: if the lookup of the project's files yields nothing
  (\<open>None\<close>: the file set could not be resolved) or the empty list, the handler leaves
  the world as it was (no file record, no submission), its status is 400 or 500 and
  never a success, and once the knowledge base is configured and the user and project
  ids are present the reply is the 400 caller error "Project requires files".
\<close>

theorem handler_rejects_project_without_files:
  assumes preflight: "httpMethod ev \<noteq> Some ''OPTIONS''"
    and cl: "claims ev = Some cl" "map_of cl ''sub'' = Some user_id"
            "map_of cl ''custom:tenantId'' = Some tenant_id"
    and bd: "body ev = Decoded (PDict b)"
    and nofiles: "get_project_files env sv user_id tenant_id (field (PDict b) ''projectId'') = None
                \<or> get_project_files env sv user_id tenant_id (field (PDict b) ''projectId'') = Some []"
  shows "snd (handler env sv ev w) = w
       \<and> statusCode (fst (handler env sv ev w)) \<in> {400, 500}
       \<and> (\<not> env_missing (KNOWLEDGE_BASE_ID env) \<and> user_id \<noteq> []
            \<and> py_truthy (field (PDict b) ''projectId'') \<longrightarrow>
          fst (handler env sv ev w) = create_response 400 (ErrorBody ''Project requires files''))"
proof -
  have u: "get_user_tenant_from_claims ev = Inr (user_id, tenant_id)"
    using cl by (simp add: get_user_tenant_from_claims_def)
  have p: "bind_exn (json_loads (body ev)) (\<lambda>b. py_get b ''projectId'' PNone)
             = Inr (field (PDict b) ''projectId'')"
    using bd by (simp add: json_loads_def py_get_def field_def split: option.split)
  from nofiles show ?thesis
    using preflight by (auto simp: handler_def u p create_response_def)
qed

theorem handler_rejects_project_without_files_witness:
  "handler demo_env ticking_services (ingest_event ''p2'') fresh_iworld
     = (create_response 400 (ErrorBody ''Project requires files''), fresh_iworld)"
proof -
  have nofiles: "get_project_files demo_env ticking_services ''u1'' ''t0''
                   (field (PDict [(''projectId'', PStr ''p2'')]) ''projectId'') = None
               \<or> get_project_files demo_env ticking_services ''u1'' ''t0''
                   (field (PDict [(''projectId'', PStr ''p2'')]) ''projectId'') = Some []"
    by (simp add: get_project_files_def demo_env_def env_missing_def ticking_services_def field_def)
  have pre: "\<not> env_missing (KNOWLEDGE_BASE_ID demo_env) \<and> ''u1'' \<noteq> []
            \<and> py_truthy (field (PDict [(''projectId'', PStr ''p2'')]) ''projectId'')"
    by (simp add: demo_env_def env_missing_def field_def py_truthy_def)
  from handler_rejects_project_without_files
    [of "ingest_event ''p2''" "[(''sub'', ''u1''), (''custom:tenantId'', ''t0'')]" "''u1''" "''t0''"
        "[(''projectId'', PStr ''p2'')]" demo_env ticking_services fresh_iworld, OF _ _ _ _ _ nofiles]
    pre
  show ?thesis
    by (simp add: ingest_event_def prod_eq_iff)
qed

lemma records_written_simps [simp]:
  "records_written [] = []"
  "records_written (PutFileRecord r # log) = r # records_written log"
  "records_written (IngestDocument s # log) = records_written log"
  "records_written (xs @ ys) = records_written xs @ records_written ys"
  by (simp_all add: records_written_def)

lemma documents_submitted_simps [simp]:
  "documents_submitted [] = []"
  "documents_submitted (PutFileRecord r # log) = documents_submitted log"
  "documents_submitted (IngestDocument s # log) = s # documents_submitted log"
  "documents_submitted (xs @ ys) = documents_submitted xs @ documents_submitted ys"
  by (simp_all add: documents_submitted_def)

lemma ingest_loop_success:
  assumes "ingest_loop env sv u t p ttl files w = (Inr (), w')"
  shows "\<exists>new. kb_log w' = kb_log w @ new
      \<and> records_written new
          = map (\<lambda>(k, f). file_record u t p (field (PDict f) ''id'') (clock sv k) ttl)
                (enumerate (clock_reads w) files)
      \<and> map inlineAttributes (documents_submitted new)
          = map (\<lambda>f. scoping_tags u t p (field (PDict f) ''id'')) files
      \<and> map document_id (documents_submitted new) = map (\<lambda>f. field (PDict f) ''id'') files"
  using assms
proof (induction files arbitrary: w)
  case Nil
  then show ?case by simp
next
  case (Cons fl rest)
  from Cons.prems obtain file_id where fid: "map_of fl ''id'' = Some file_id"
    by (cases "map_of fl ''id''") simp_all
  define rcd where "rcd = file_record u t p file_id (clock sv (clock_reads w)) ttl"
  define w1 where "w1 = w\<lparr>kb_log := kb_log w @ [PutFileRecord rcd],
                          clock_reads := Suc (clock_reads w)\<rparr>"
  define doc where "doc =
     \<lparr>sub_knowledgeBaseId = KNOWLEDGE_BASE_ID env, sub_dataSourceId = DATA_SOURCE_ID env,
      sub_clientToken = ingest_token sv (token_draws w1), document_id = file_id,
      s3_bucket = (case map_of fl ''bucket'' of Some v \<Rightarrow> v | None \<Rightarrow> PNone),
      s3_key = (case map_of fl ''s3Key'' of Some v \<Rightarrow> v | None \<Rightarrow> PNone),
      inlineAttributes = scoping_tags u t p file_id\<rparr>"
  define w2 where "w2 = w1\<lparr>kb_log := kb_log w1 @ [IngestDocument doc],
                           token_draws := Suc (token_draws w1)\<rparr>"
  from Cons.prems fid have rest: "ingest_loop env sv u t p ttl rest w2 = (Inr (), w')"
    by (simp add: Let_def rcd_def [symmetric] w1_def [symmetric] doc_def [symmetric]
        w2_def [symmetric] split: option.splits)
  from Cons.IH [OF rest] obtain new where new: "kb_log w' = kb_log w2 @ new"
    "records_written new
       = map (\<lambda>(k, f). file_record u t p (field (PDict f) ''id'') (clock sv k) ttl)
             (enumerate (clock_reads w2) rest)"
    "map inlineAttributes (documents_submitted new)
       = map (\<lambda>f. scoping_tags u t p (field (PDict f) ''id'')) rest"
    "map document_id (documents_submitted new) = map (\<lambda>f. field (PDict f) ''id'') rest"
    by blast
  have f: "field (PDict fl) ''id'' = file_id"
    using fid by (simp add: field_def)
  have log2: "kb_log w2 = kb_log w @ [PutFileRecord rcd, IngestDocument doc]"
    and clk: "clock_reads w2 = Suc (clock_reads w)"
    by (simp_all add: w2_def w1_def)
  show ?case
    apply (rule exI [of _ "[PutFileRecord rcd, IngestDocument doc] @ new"])
    using new by (simp add: log2 clk f rcd_def doc_def)
qed

lemma file_record_attributes:
  "map_of (file_record u t p i c ttl) ''documentStatus'' = Some (PStr ''ready'')"
  "int_attribute (file_record u t p i c ttl) ''ttl'' = Some ttl"
  "int_attribute (file_record u t p i c ttl) ''createdAt'' = Some c"
  "map_of (file_record u t p i c ttl) ''id'' = Some i"
  by (simp_all add: file_record_def int_attribute_def)

lemma map_enumerate_snd: "map (\<lambda>(k, f). g f) (enumerate n xs) = map g xs"
  by (induction xs arbitrary: n) simp_all

lemma map_enumerate_fst: "map (\<lambda>(k, f). h k) (enumerate n xs) = map h [n..<n + length xs]"
  by (induction xs arbitrary: n) (simp_all add: upt_rec)

text \<open>
  Claim C4, as the code has it. A run of \<open>ingest_files\<close> that returns normally on \<open>N\<close>
  files has found the tenant's retention \<open>hours\<close> in the configuration and has sent
  exactly \<open>N\<close> file records and \<open>N\<close> document submissions. Every record has
  \<open>documentStatus = 'ready'\<close> and the same \<open>ttl\<close>, the run's first clock reading plus
  \<open>hours * 3600\<close>; the records' \<open>createdAt\<close> are the \<open>N\<close> later clock readings, one per
  record, in order; record \<open>i\<close> carries the id of file \<open>i\<close>; submission \<open>i\<close> carries the four
  tags \<open>userId\<close>, \<open>tenantId\<close>, \<open>projectId\<close>, \<open>fileId\<close> of file \<open>i\<close>.
\<close>

theorem ingest_files_writes_and_submits:
  assumes ok: "fst (ingest_files env sv u t p files w) = Inr ()"
  shows "\<exists>hours new.
           configured_hours env t = Inr hours
         \<and> kb_log (snd (ingest_files env sv u t p files w)) = kb_log w @ new
         \<and> length (records_written new) = length files
         \<and> length (documents_submitted new) = length files
         \<and> list_all (\<lambda>r. map_of r ''documentStatus'' = Some (PStr ''ready'')
                        \<and> int_attribute r ''ttl'' = Some (clock sv (clock_reads w) + hours * 3600))
              (records_written new)
         \<and> map (\<lambda>r. int_attribute r ''createdAt'') (records_written new)
             = map (\<lambda>k. Some (clock sv k))
                   [Suc (clock_reads w)..<Suc (clock_reads w) + length files]
         \<and> map (\<lambda>r. map_of r ''id'') (records_written new) = map (\<lambda>f. map_of f ''id'') files
         \<and> map inlineAttributes (documents_submitted new)
             = map (\<lambda>f. [(''userId'', PStr u), (''tenantId'', PStr t), (''projectId'', p),
                         (''fileId'', field (PDict f) ''id'')]) files"
proof -
  from ok obtain tenant where tenant: "configured_tenant env t = Inr tenant"
    by (cases "configured_tenant env t") (simp_all add: ingest_files_def)
  with ok obtain hours where hours: "files_ttl_hours tenant = Inr hours"
    by (cases "files_ttl_hours tenant") (simp_all add: ingest_files_def Let_def)
  define w1 where "w1 = w\<lparr>clock_reads := Suc (clock_reads w)\<rparr>"
  define ttl where "ttl = clock sv (clock_reads w) + hours * 3600"
  have run: "ingest_files env sv u t p files w = ingest_loop env sv u t p ttl files w1"
    by (simp add: ingest_files_def tenant hours Let_def w1_def ttl_def)
  with ok obtain w' where w': "ingest_loop env sv u t p ttl files w1 = (Inr (), w')"
    by (cases "ingest_loop env sv u t p ttl files w1") auto
  from ingest_loop_success [OF w'] obtain new where new: "kb_log w' = kb_log w1 @ new"
    and recs: "records_written new
          = map (\<lambda>(k, f). file_record u t p (field (PDict f) ''id'') (clock sv k) ttl)
                (enumerate (clock_reads w1) files)"
    and attrs: "map inlineAttributes (documents_submitted new)
          = map (\<lambda>f. scoping_tags u t p (field (PDict f) ''id'')) files"
    and ids: "map document_id (documents_submitted new) = map (\<lambda>f. field (PDict f) ''id'') files"
    by blast
  have ids_present: "\<forall>f\<in>set files. map_of f ''id'' \<noteq> None"
    using w'
  proof (induction files arbitrary: w1)
    case Nil
    then show ?case by simp
  next
    case (Cons a rest)
    from Cons.prems obtain i where i: "map_of a ''id'' = Some i"
      by (cases "map_of a ''id''") simp_all
    from Cons.prems i obtain w2 where "ingest_loop env sv u t p ttl rest w2 = (Inr (), w')"
      by (auto simp: Let_def split: option.splits)
    from Cons.IH [OF this] i show ?case by simp
  qed
  have "map (\<lambda>r. map_of r ''id'') (records_written new)
          = map (\<lambda>f. Some (field (PDict f) ''id'')) files"
    by (simp add: recs comp_def case_prod_unfold file_record_attributes
        map_enumerate_snd [where g = "\<lambda>f. Some (field (PDict f) ''id'')", unfolded case_prod_unfold])
  also have "\<dots> = map (\<lambda>f. map_of f ''id'') files"
    using ids_present by (auto simp: field_def)
  finally have idmap: "map (\<lambda>r. map_of r ''id'') (records_written new)
                         = map (\<lambda>f. map_of f ''id'') files" .
  have len_docs: "length (documents_submitted new) = length files"
    using arg_cong [OF ids, of length] by simp
  show ?thesis
    apply (rule exI [of _ hours], rule exI [of _ new])
    apply (intro conjI)
    subgoal by (simp add: configured_hours_def tenant hours)
    subgoal using new by (simp add: run w') (simp add: w1_def)
    subgoal by (simp add: recs)
    subgoal by (rule len_docs)
    subgoal by (simp add: recs list_all_iff file_record_attributes ttl_def enumerate_eq_zip
          in_set_zip case_prod_unfold)
    subgoal by (simp add: recs comp_def case_prod_unfold file_record_attributes w1_def
          map_enumerate_fst [where h = "\<lambda>k. Some (clock sv k)", unfolded case_prod_unfold])
    subgoal by (rule idmap)
    subgoal by (simp add: attrs scoping_tags_def)
    done
qed

lemma demo_hours: "configured_hours demo_env ''t0'' = Inr 24"
  by (simp add: configured_hours_def configured_tenant_def json_loads_def demo_env_def
      py_item_def find_tenant_def py_iter_def files_ttl_hours_def py_int_def)

lemma demo_hours_t1: "configured_hours demo_env ''t1'' = Inr 1"
  by (simp add: configured_hours_def configured_tenant_def json_loads_def demo_env_def
      py_item_def find_tenant_def py_iter_def files_ttl_hours_def py_int_def
      int_of_string_def py_strip_def is_space_def read_unsigned_def is_digit_def digit_value_def)

lemma demo_run:
  "ingest_files demo_env ticking_services ''u1'' ''t0'' (PStr ''p1'') [project_file ''f1''] fresh_iworld
     = (Inr (),
        \<lparr>kb_log = [PutFileRecord (file_record ''u1'' ''t0'' (PStr ''p1'') (PStr ''f1'') 101 86500),
                   IngestDocument \<lparr>sub_knowledgeBaseId = Some ''kb'', sub_dataSourceId = Some ''ds'',
                     sub_clientToken = ''token'', document_id = PStr ''f1'',
                     s3_bucket = PStr ''uploads'', s3_key = PStr ''f1'',
                     inlineAttributes = scoping_tags ''u1'' ''t0'' (PStr ''p1'') (PStr ''f1'')\<rparr>],
          clock_reads = 2, token_draws = 1\<rparr>)"
  by (simp add: ingest_files_def configured_tenant_def json_loads_def demo_env_def
      py_item_def find_tenant_def py_iter_def files_ttl_hours_def py_int_def Let_def
      ticking_services_def project_file_def fresh_iworld_def)

text \<open>
  The claim as stated has \<open>ttl = createdAt + hours * 3600\<close>. With a clock that advances
  by one second between the reading of line 124 and the reading of line 150, a run on
  one file of a tenant with 24 hours of retention writes \<open>createdAt = 101\<close> and
  \<open>ttl = 86500\<close>, which is not \<open>101 + 24 * 3600\<close>.
\<close>

theorem ingest_files_ttl_counterexample:
  "fst (ingest_files demo_env ticking_services ''u1'' ''t0'' (PStr ''p1'') [project_file ''f1'']
          fresh_iworld) = Inr ()
   \<and> configured_hours demo_env ''t0'' = Inr 24
   \<and> map created_and_ttl
        (records_written (kb_log (snd (ingest_files demo_env ticking_services ''u1'' ''t0''
           (PStr ''p1'') [project_file ''f1''] fresh_iworld))))
       = [(Some 101, Some 86500)]
   \<and> (86500 :: int) \<noteq> 101 + 24 * 3600"
  by (simp add: demo_run demo_hours created_and_ttl_def file_record_def int_attribute_def)

theorem ingest_files_writes_and_submits_witness:
  "fst (ingest_files demo_env ticking_services ''u1'' ''t0'' (PStr ''p1'') [project_file ''f1'']
          fresh_iworld) = Inr ()
   \<and> (\<exists>new. kb_log (snd (ingest_files demo_env ticking_services ''u1'' ''t0'' (PStr ''p1'')
                 [project_file ''f1''] fresh_iworld)) = new
          \<and> length (records_written new) = 1 \<and> length (documents_submitted new) = 1
          \<and> list_all (\<lambda>r. int_attribute r ''ttl'' = Some (100 + 24 * 3600)) (records_written new)
          \<and> map (\<lambda>r. int_attribute r ''createdAt'') (records_written new) = [Some 101])"
proof -
  have ok: "fst (ingest_files demo_env ticking_services ''u1'' ''t0'' (PStr ''p1'')
                   [project_file ''f1''] fresh_iworld) = Inr ()"
    by (simp add: demo_run)
  have c0: "clock_reads fresh_iworld = 0" "kb_log fresh_iworld = []"
    by (simp_all add: fresh_iworld_def)
  have clk: "clock ticking_services 0 = 100" "clock ticking_services (Suc 0) = 101"
    by (simp_all add: ticking_services_def)
  from ingest_files_writes_and_submits [OF ok] obtain hours new where
    h: "configured_hours demo_env ''t0'' = Inr hours"
    and new: "kb_log (snd (ingest_files demo_env ticking_services ''u1'' ''t0'' (PStr ''p1'')
                 [project_file ''f1''] fresh_iworld)) = kb_log fresh_iworld @ new"
    and n1: "length (records_written new) = length [project_file ''f1'']"
    and n2: "length (documents_submitted new) = length [project_file ''f1'']"
    and ttl: "list_all (\<lambda>r. map_of r ''documentStatus'' = Some (PStr ''ready'')
                        \<and> int_attribute r ''ttl''
                            = Some (clock ticking_services (clock_reads fresh_iworld) + hours * 3600))
              (records_written new)"
    and created: "map (\<lambda>r. int_attribute r ''createdAt'') (records_written new)
             = map (\<lambda>k. Some (clock ticking_services k))
                   [Suc (clock_reads fresh_iworld)..<Suc (clock_reads fresh_iworld)
                      + length [project_file ''f1'']]"
    by blast
  from h have hours: "hours = 24"
    by (simp add: demo_hours)
  from ttl have ttl': "list_all (\<lambda>r. int_attribute r ''ttl'' = Some (100 + 24 * 3600))
                         (records_written new)"
    by (simp add: hours c0 clk list_all_iff)
  from created have created': "map (\<lambda>r. int_attribute r ''createdAt'') (records_written new)
                                 = [Some 101]"
    by (simp add: c0 clk)
  from ok new n1 n2 ttl' created' show ?thesis
    by (simp add: c0)
qed

section \<open>The expiry reaper\<close>

lemma dict_or_absent_get:
  "dict_or_absent d k \<Longrightarrow> py_get d k (PDict []) = Inr (sub_dict d k)"
  by (auto simp: dict_or_absent_def sub_dict_def field_def py_get_def split: pyval.splits option.splits)

lemma dict_or_absent_field:
  "dict_or_absent d k \<Longrightarrow> py_get d j PNone = Inr (field d j)"
  by (auto simp: dict_or_absent_def field_def py_get_def split: pyval.splits option.splits)

lemma sub_dict_get:
  "py_get (sub_dict d k) j PNone = Inr (field (field d k) j)"
  by (auto simp: sub_dict_def field_def py_get_def split: pyval.splits option.splits)

lemma sub_dict_in:
  "\<exists>b. py_in j (sub_dict d k) = Inr b"
  by (auto simp: sub_dict_def py_in_def split: pyval.splits)

lemma is_ttl_identity_sub_dict:
  "is_ttl_identity (sub_dict r ''userIdentity'')
     = Inr (field (field r ''userIdentity'') ''type'' = PStr ''Service''
            \<and> field (field r ''userIdentity'') ''principalId'' = PStr ''dynamodb.amazonaws.com'')"
  by (simp add: is_ttl_identity_def sub_dict_get)

lemma project_id_read:
  assumes "dict_or_absent oi ''projectId''"
  shows "(if b then bind_exn (py_get oi ''projectId'' (PDict [])) (\<lambda>p. py_get p ''S'' PNone)
          else Inr PNone) = Inr (if b then field (field oi ''projectId'') ''S'' else PNone)"
  by (simp add: dict_or_absent_get [OF assms] sub_dict_get)

lemma examine_stream_record:
  assumes "stream_record r"
  shows "examine_record r = Inr (if names_expired_file r then Some (key_attribute r ''id'') else None)"
proof -
  from assms have ui: "dict_or_absent r ''userIdentity''" and db: "dict_or_absent r ''dynamodb''"
    and ks: "dict_or_absent (sub_dict r ''dynamodb'') ''Keys''"
    and oi: "dict_or_absent (sub_dict r ''dynamodb'') ''OldImage''"
    and kid: "dict_or_absent (sub_dict (sub_dict r ''dynamodb'') ''Keys'') ''id''"
    and kt: "dict_or_absent (sub_dict (sub_dict r ''dynamodb'') ''Keys'') ''tenantId''"
    and pr: "dict_or_absent (sub_dict (sub_dict r ''dynamodb'') ''OldImage'') ''projectId''"
    by (simp_all add: stream_record_def)
  have key: "field (sub_dict (sub_dict (sub_dict r ''dynamodb'') ''Keys'') k) ''S'' = key_attribute r k" for k
    by (auto simp: key_attribute_def sub_dict_def field_def split: pyval.splits option.splits)
  have keyget: "py_get (sub_dict (sub_dict (sub_dict r ''dynamodb'') ''Keys'') k) ''S'' PNone = Inr (key_attribute r k)" for k
    using key [of k] by (auto simp: sub_dict_def py_get_def field_def split: pyval.splits option.splits)
  obtain b where b: "py_in ''projectId'' (sub_dict (sub_dict r ''dynamodb'') ''OldImage'') = Inr b"
    using sub_dict_in by blast
  show ?thesis
    unfolding examine_record_def
    by (simp add: b project_id_read [OF pr] dict_or_absent_field [OF ui] dict_or_absent_get [OF ui] dict_or_absent_get [OF db]
        dict_or_absent_get [OF ks] dict_or_absent_get [OF oi] dict_or_absent_get [OF kid]
        dict_or_absent_get [OF kt] is_ttl_identity_sub_dict keyget
        names_expired_file_def system_initiated_removal_def)
qed

lemma deletion_calls_Nil [simp]: "deletion_calls kb ds sv n [] = []"
  by (simp add: deletion_calls_def)

lemma deletion_calls_Cons:
  "deletion_calls kb ds sv n (r # rs) =
     \<lparr>clientToken = delete_token sv n, del_knowledgeBaseId = kb,
      del_dataSourceId = ds, custom_id = key_attribute r ''id''\<rparr> # deletion_calls kb ds sv (Suc n) rs"
  by (simp add: deletion_calls_def)

lemma accepted_calls_simps:
  "accepted_calls sv n [] = 0"
  "accepted_calls sv n (c # cs) =
     (if delete_outcome sv n c = None then 1 else 0) + accepted_calls sv (Suc n) cs"
  by (simp_all add: accepted_calls_def)

lemma failed_calls_simps:
  "failed_calls sv n [] = 0"
  "failed_calls sv n (c # cs) =
     (if delete_outcome sv n c = None then 0 else 1) + failed_calls sv (Suc n) cs"
  by (simp_all add: failed_calls_def)

lemma accepted_plus_failed: "accepted_calls sv n cs + failed_calls sv n cs = length cs"
  by (induction cs arbitrary: n) (simp_all add: accepted_calls_simps failed_calls_simps)

lemma process_records_stream:
  assumes "\<forall>r\<in>set rs. stream_record r"
  shows "process_records kb ds sv rs p e log =
           (Inr (p + accepted_calls sv (length log)
                       (deletion_calls kb ds sv (length log) (filter names_expired_file rs)),
                 e + failed_calls sv (length log)
                       (deletion_calls kb ds sv (length log) (filter names_expired_file rs))),
            log @ deletion_calls kb ds sv (length log) (filter names_expired_file rs))"
  using assms
proof (induction rs arbitrary: p e log)
  case Nil
  then show ?case by (simp add: accepted_calls_simps failed_calls_simps)
next
  case (Cons r rs)
  then have r: "stream_record r" and rs: "\<forall>r\<in>set rs. stream_record r" by simp_all
  show ?case
  proof (cases "names_expired_file r")
    case False
    then show ?thesis
      by (simp add: examine_stream_record [OF r] Cons.IH [OF rs])
  next
    case True
    then show ?thesis
      by (simp add: examine_stream_record [OF r] Cons.IH [OF rs] Let_def
          deletion_calls_Cons accepted_calls_simps failed_calls_simps split: option.split)
  qed
qed


text \<open>
  Claim C5. With the knowledge base, the data source and the table name configured, and
  on a batch of change records of the stream's shape: the deletion calls made are
  exactly one per record that is a system-initiated removal carrying a file id and a
  tenant id, in the order of the batch and each naming that record's file id, whatever
  the outcome of the individual calls; caller-initiated removals and other events
  cause no call. The handler answers 200; for a non-empty batch it reports the number
  of accepted and of failed deletions, which add up to the number of qualifying
  records, and for an empty batch the no-op message.
\<close>

theorem lambda_handler_isolates_failures:
  fixes env :: environ and sv :: reaper_services and records :: "pyval list"
    and log :: "delete_call list"
  defines "qualifying \<equiv> filter names_expired_file records"
  defines "calls \<equiv> deletion_calls (env_value (KNOWLEDGE_BASE_ID env))
                      (env_value (DATA_SOURCE_ID env)) sv (length log) qualifying"
  assumes kb: "\<not> env_missing (KNOWLEDGE_BASE_ID env)"
    and ds: "\<not> env_missing (DATA_SOURCE_ID env)"
    and tbl: "\<not> env_missing (KNOWLEDGE_BASE_FILES_TABLE env)"
    and shape: "\<forall>r\<in>set records. stream_record r"
  shows "snd (lambda_handler env sv records log) = log @ calls
       \<and> map custom_id calls = map (\<lambda>r. key_attribute r ''id'') qualifying
       \<and> statusCode (fst (lambda_handler env sv records log)) = 200
       \<and> rbody (fst (lambda_handler env sv records log))
           = (if records = [] then MessageBody ''No records to process''
              else ProcessedBody (accepted_calls sv (length log) calls)
                                 (failed_calls sv (length log) calls))
       \<and> accepted_calls sv (length log) calls + failed_calls sv (length log) calls
           = length qualifying"
proof -
  have ids: "map custom_id (deletion_calls k d sv n q) = map (\<lambda>r. key_attribute r ''id'') q"
    for k d n q
    by (induction q arbitrary: n) (simp_all add: deletion_calls_Cons)
  have len: "length calls = length qualifying"
    by (simp add: calls_def deletion_calls_def)
  show ?thesis
  proof (cases "records = []")
    case True
    with kb ds tbl show ?thesis
      by (simp add: lambda_handler_def calls_def qualifying_def accepted_calls_simps
          failed_calls_simps)
  next
    case False
    with kb ds tbl show ?thesis
      using accepted_plus_failed [of sv "length log" calls] len
      by (simp add: lambda_handler_def process_records_stream [OF shape] ids
          calls_def qualifying_def)
  qed
qed

lemma removal_record_shape: "stream_record (removal_record n f i) \<longleftrightarrow> dict_or_absent (PDict i) ''userIdentity''"
  by (simp add: stream_record_def removal_record_def dict_or_absent_def sub_dict_def field_def)

theorem lambda_handler_isolates_failures_witness:
  "map custom_id (snd (lambda_handler demo_env flaky_reaper mixed_batch []))
     = [PStr ''f1'', PStr ''f4'']
   \<and> fst (lambda_handler demo_env flaky_reaper mixed_batch [])
     = \<lparr>statusCode = 200, rbody = ProcessedBody 1 1\<rparr>"
proof -
  have shape: "\<forall>r\<in>set mixed_batch. stream_record r"
    by (simp add: mixed_batch_def removal_record_shape ttl_identity_def dict_or_absent_def)
  have q: "filter names_expired_file mixed_batch
             = [removal_record ''REMOVE'' ''f1'' ttl_identity,
                removal_record ''REMOVE'' ''f4'' ttl_identity]"
    by (simp add: mixed_batch_def names_expired_file_def system_initiated_removal_def
        key_attribute_def field_def removal_record_def ttl_identity_def py_truthy_def)
  have ne: "mixed_batch \<noteq> []"
    by (simp add: mixed_batch_def)
  have cfg: "\<not> env_missing (KNOWLEDGE_BASE_ID demo_env)" "\<not> env_missing (DATA_SOURCE_ID demo_env)"
    "\<not> env_missing (KNOWLEDGE_BASE_FILES_TABLE demo_env)"
    by (simp_all add: demo_env_def env_missing_def)
  from lambda_handler_isolates_failures [OF cfg shape, of flaky_reaper "[]"]
  show ?thesis
    apply (simp only: q ne if_False)
    apply (simp add: deletion_calls_Cons accepted_calls_simps failed_calls_simps
        flaky_reaper_def key_attribute_def field_def removal_record_def)
    done
qed

section \<open>Chat history retrieval\<close>

lemma environ_item_Some [simp]: "environ_item name (Some s) = Inr s"
  by (simp add: environ_item_def)

text \<open>With the table name configured the retrieval returns the empty list and leaves
  the world as it was; so the re-keying finds no message and writes nothing.\<close>

lemma get_chat_history_configured:
  "CHAT_HISTORY_TABLE env = Some table_name \<Longrightarrow>
     get_chat_history_by_tenant_user env sv tenant_id user_id w = (Inr [], w)"
  by (simp add: get_chat_history_by_tenant_user_def history_query_def)

lemma update_chat_history_session_id_eq:
  "update_chat_history_session_id env sv user_id tenant_id results_id old new w
     = (CHAT_HISTORY_TABLE env \<noteq> None, w)"
proof (cases "CHAT_HISTORY_TABLE env")
  case None
  then show ?thesis
    by (simp add: update_chat_history_session_id_def environ_item_def)
next
  case (Some table_name)
  then show ?thesis
    by (simp add: update_chat_history_session_id_def get_chat_history_configured [OF Some])
qed

lemma history_partition:
  "filter (in_partition ''t1'' ''u1'') (chat_table history_world)
     = [past_message ''m30'' ''u1'' ''s-old'' 30, past_message ''m10'' ''u1'' ''s-old'' 10,
        past_message ''m20'' ''u1'' ''s-other'' 20]"
  by (simp add: history_world_def in_partition_def past_message_def chat_message_def)

text \<open>
  Claim C9. The retrieval does not return the entries of the partition: on a table in
  which user \<open>u1\<close> of tenant \<open>t1\<close> has the three entries \<open>m30\<close>, \<open>m10\<close> and \<open>m20\<close>, with
  the table name configured, it returns the empty list and has made no call on the
  table, because the key condition of its query cannot be built.
\<close>

theorem get_chat_history_returns_no_entry:
  "get_chat_history_by_tenant_user demo_env recovering_services ''t1'' ''u1'' history_world
     = (Inr [], history_world)
   \<and> chat_log history_world = []
   \<and> map (\<lambda>it. map_of it ''id'') (filter (in_partition ''t1'' ''u1'') (chat_table history_world))
       = [Some (PStr ''m30''), Some (PStr ''m10''), Some (PStr ''m20'')]"
proof -
  have env: "CHAT_HISTORY_TABLE demo_env = Some ''chat-history''"
    by (simp add: demo_env_def)
  have "chat_log history_world = []" by (simp add: history_world_def)
  then show ?thesis
    by (simp add: get_chat_history_configured [OF env] history_partition past_message_def
        chat_message_def)
qed

text \<open>
  Claim C10. With the table name configured, the retrieval never raises: the query
  block fails (the key condition cannot be built) and the retrieval returns the empty
  list. The bulk delete of the empty list succeeds without a call on the table, so
  \<open>delete_chat_session\<close> reports success, and the DELETE endpoint answers 200 with the
  confirmation that the project's chat history was deleted, although the table and
  the log of calls made on it are what they were: nothing has been deleted.
\<close>

theorem retrieval_failure_reported_as_deleted:
  assumes env: "CHAT_HISTORY_TABLE env = Some table_name"
    and project: "project_id \<noteq> []"
  shows "(\<exists>e. history_query tenant_id user_id = Inl e)
       \<and> get_chat_history_by_tenant_user env sv tenant_id user_id w = (Inr [], w)
       \<and> batch_delete_items sv table_name [] w = (True, w)
       \<and> delete_chat_session env sv tenant_id project_id user_id w = (True, w)
       \<and> handle_delete_session env sv user_id tenant_id project_id w
           = (create_response 200 (DeletedBody project_id), w)"
proof -
  have failed: "\<exists>e. history_query tenant_id user_id = Inl e"
    by (simp add: history_query_def)
  have retrieved: "get_chat_history_by_tenant_user env sv tenant_id user_id w = (Inr [], w)"
    by (rule get_chat_history_configured [OF env])
  have bulk: "batch_delete_items sv table_name [] w = (True, w)"
    by (simp add: batch_delete_items_def)
  have session: "delete_chat_session env sv tenant_id project_id user_id w = (True, w)"
    by (simp add: delete_chat_session_def retrieved env bulk)
  have reply: "handle_delete_session env sv user_id tenant_id project_id w
                 = (create_response 200 (DeletedBody project_id), w)"
    using project by (simp add: handle_delete_session_def session)
  from failed retrieved bulk session reply show ?thesis by simp
qed

theorem retrieval_failure_reported_as_deleted_witness:
  "handle_delete_session demo_env recovering_services ''u1'' ''t1'' ''p1'' history_world
     = (create_response 200 (DeletedBody ''p1''), history_world)
   \<and> delete_chat_session demo_env recovering_services ''t1'' ''p1'' ''u1'' history_world
     = (True, history_world)
   \<and> get_chat_history_by_tenant_user demo_env recovering_services ''t1'' ''u1'' history_world
     = (Inr [], history_world)
   \<and> length (filter (in_partition ''t1'' ''u1'') (chat_table history_world)) = 3"
proof -
  have env: "CHAT_HISTORY_TABLE demo_env = Some ''chat-history''"
    by (simp add: demo_env_def)
  have p: "''p1'' \<noteq> []" by simp
  from retrieval_failure_reported_as_deleted [OF env p, of "''t1''" "''u1''" recovering_services
      history_world]
  show ?thesis
    by (simp add: history_partition)
qed
section \<open>Query scoping\<close>

lemma put_item_frame:
  "rag_log (snd (put_item sv it w)) = rag_log w \<and> uuid_draws (snd (put_item sv it w)) = uuid_draws w"
  by (simp add: put_item_def send_request_def split: option.split)

lemma save_chat_message_rag:
  "rag_log (snd (save_chat_message env sv s u t p ty c ts src w)) = rag_log w"
proof (cases "CHAT_HISTORY_TABLE env")
  case None
  then show ?thesis by (simp add: save_chat_message_def environ_item_def)
next
  case (Some tn)
  obtain x w2 where p: "put_item sv (chat_message (uuid4 sv (uuid_draws w)) s u t p ty c ts src)
                          (w\<lparr>uuid_draws := Suc (uuid_draws w)\<rparr>) = (x, w2)"
    by (cases "put_item sv (chat_message (uuid4 sv (uuid_draws w)) s u t p ty c ts src)
                 (w\<lparr>uuid_draws := Suc (uuid_draws w)\<rparr>)")
  with put_item_frame [of sv "chat_message (uuid4 sv (uuid_draws w)) s u t p ty c ts src"
      "w\<lparr>uuid_draws := Suc (uuid_draws w)\<rparr>"]
  show ?thesis
    by (cases x) (simp_all add: save_chat_message_def Some Let_def)
qed

lemma record_turn_rag:
  "rag_log (snd (record_turn env sv q p ids u t r w)) = rag_log w"
proof -
  show ?thesis
    unfolding record_turn_def
    apply (simp split: sum.splits prod.splits add: Let_def)
    apply (intro allI impI conjI)
    using save_chat_message_rag
    apply (metis snd_conv)+
    done
qed


lemma update_chat_history_rag_eq:
  "update_chat_history_session_id env sv u t p old new w = (ok, w') \<Longrightarrow> rag_log w' = rag_log w"
  by (simp add: update_chat_history_session_id_eq)

lemma perform_rag_log:
  "\<exists>calls. rag_log (snd (perform_retrieve_and_generate sv params w)) = rag_log w @ calls
      \<and> (calls = [params] \<or> calls = [params, params\<lparr>sessionId := None\<rparr>])"
  by (auto simp: perform_retrieve_and_generate_def call_rag_def
      split: sum.splits exn.splits option.splits)

lemma filter_expression_admits:
  "filter_admits (filter_expression tenant_id project_id file_ids) metadata \<longleftrightarrow>
     map_of metadata ''tenantId'' = Some (PStr tenant_id)
   \<and> map_of metadata ''projectId'' = Some project_id
   \<and> (\<exists>i\<in>set file_ids. map_of metadata ''fileId'' = Some i)"
  by (simp add: filter_expression_def)

text \<open>
  Claim C1. Whatever the request, every call that \<open>handle_query\<close> makes to
  \<open>retrieve_and_generate\<close> belongs to a request that named a project \<open>P\<close> whose file ids
  resolved to a non-empty list, and carries the filter built from the tenant, \<open>P\<close> and
  that list: \<open>andAll\<close> of \<open>equals tenantId\<close>, \<open>equals projectId\<close> and \<open>in fileId\<close>, which
  admits a document exactly when its metadata has that tenant, that project and one of
  those file ids. A request whose project resolves to no file is answered 404 and
  leaves the world as it was, so no call has been made.
\<close>

theorem handle_query_scopes_every_call:
  "(\<forall>c\<in>set (drop (length (rag_log w)) (rag_log (snd (handle_query env sv ev user_id tenant_id w)))).
      \<exists>query project_id session_id kb file_ids.
          query_inputs env ev = Inr (Proceed query project_id session_id kb)
        \<and> get_file_ids env sv tenant_id project_id = Inr file_ids
        \<and> file_ids \<noteq> []
        \<and> filter_expr c = AndAll [Equals ''tenantId'' (PStr tenant_id),
                                   Equals ''projectId'' project_id, IsIn ''fileId'' file_ids]
        \<and> (\<forall>metadata. filter_admits (filter_expr c) metadata \<longleftrightarrow>
               map_of metadata ''tenantId'' = Some (PStr tenant_id)
             \<and> map_of metadata ''projectId'' = Some project_id
             \<and> (\<exists>i\<in>set file_ids. map_of metadata ''fileId'' = Some i)))
   \<and> (\<forall>query project_id session_id kb.
          query_inputs env ev = Inr (Proceed query project_id session_id kb)
        \<and> get_file_ids env sv tenant_id project_id = Inr [] \<longrightarrow>
          handle_query env sv ev user_id tenant_id w
            = (Inr (create_response 404 (ErrorBody ''No files found for this project'')), w))
   \<and> (\<forall>query project_id session_id kb file_ids.
          query_inputs env ev = Inr (Proceed query project_id session_id kb)
        \<and> get_file_ids env sv tenant_id project_id = Inr file_ids \<and> file_ids \<noteq> [] \<longrightarrow>
          length (rag_log w) < length (rag_log (snd (handle_query env sv ev user_id tenant_id w))))"
proof (cases "query_inputs env ev")
  case (Inl e)
  then show ?thesis by (simp add: handle_query_def)
next
  case (Inr inp)
  show ?thesis
  proof (cases inp)
    case (Reject r)
    with Inr show ?thesis by (simp add: handle_query_def)
  next
    case (Proceed query project_id session_id kb)
    note inputs = Inr [unfolded Proceed]
    show ?thesis
    proof (cases "get_file_ids env sv tenant_id project_id")
      case (Inl e)
      with inputs show ?thesis by (simp add: handle_query_def)
    next
      case files: (Inr file_ids)
      show ?thesis
      proof (cases "file_ids = []")
        case True
        with inputs files show ?thesis by (simp add: handle_query_def)
      next
        case False
        define params where "params = build_params kb query tenant_id project_id file_ids session_id"
        obtain x w1 where p: "perform_retrieve_and_generate sv params w = (x, w1)"
          by (cases "perform_retrieve_and_generate sv params w")
        from perform_rag_log [of sv params w] p obtain calls where
          calls: "rag_log w1 = rag_log w @ calls"
            "calls = [params] \<or> calls = [params, params\<lparr>sessionId := None\<rparr>]"
          by auto
        have log: "rag_log (snd (handle_query env sv ev user_id tenant_id w)) = rag_log w1"
          using False
          by (auto simp: handle_query_def inputs files params_def [symmetric] p record_turn_rag
              split: sum.splits prod.splits dest: update_chat_history_rag_eq)
        have scoped: "\<forall>c\<in>set calls. filter_expr c = filter_expression tenant_id project_id file_ids"
          using calls(2) by (auto simp: params_def build_params_def)
        from calls(2) have "calls \<noteq> []" by auto
        with scoped False show ?thesis
          by (simp add: log calls(1) inputs files filter_expression_admits)
            (simp add: filter_expression_def)
      qed
    qed
  qed
qed

lemma demo_inputs:
  "query_inputs demo_env (query_event p)
     = Inr (Proceed (PStr ''hello'') (PStr p) (PStr ''s-old'') ''kb'')" if "p \<noteq> []"
  using that
  by (simp add: query_inputs_def query_event_def json_loads_def py_get_def py_truthy_def
      env_missing_def env_value_def demo_env_def)

lemma demo_files:
  "get_file_ids demo_env recovering_services ''t1'' (PStr ''p1'') = Inr [PStr ''f1'']"
  "get_file_ids demo_env recovering_services ''t1'' (PStr ''p2'') = Inr []"
  by (simp_all add: get_file_ids_def environ_item_def demo_env_def recovering_services_def)

theorem handle_query_scopes_every_call_witness:
  "list_all (\<lambda>c. filter_expr c = demo_filter)
     (rag_log (snd (handle_query demo_env recovering_services (query_event ''p1'') ''u1'' ''t1''
                      empty_qworld)))
   \<and> 0 < length (rag_log (snd (handle_query demo_env recovering_services (query_event ''p1'')
                      ''u1'' ''t1'' empty_qworld)))
   \<and> handle_query demo_env recovering_services (query_event ''p2'') ''u1'' ''t1'' empty_qworld
       = (Inr (create_response 404 (ErrorBody ''No files found for this project'')), empty_qworld)"
proof -
  have e: "rag_log empty_qworld = []" by (simp add: empty_qworld_def)
  have i1: "query_inputs demo_env (query_event ''p1'')
              = Inr (Proceed (PStr ''hello'') (PStr ''p1'') (PStr ''s-old'') ''kb'')"
    and i2: "query_inputs demo_env (query_event ''p2'')
              = Inr (Proceed (PStr ''hello'') (PStr ''p2'') (PStr ''s-old'') ''kb'')"
    by (simp_all add: demo_inputs)
  from handle_query_scopes_every_call
    [of empty_qworld demo_env recovering_services "query_event ''p1''" "''u1''" "''t1''"]
  have a: "list_all (\<lambda>c. filter_expr c = demo_filter)
     (rag_log (snd (handle_query demo_env recovering_services (query_event ''p1'') ''u1'' ''t1''
                      empty_qworld)))"
    and b: "0 < length (rag_log (snd (handle_query demo_env recovering_services
                      (query_event ''p1'') ''u1'' ''t1'' empty_qworld)))"
    by (auto simp: e i1 demo_files list_all_iff demo_filter_def)
  from handle_query_scopes_every_call
    [of empty_qworld demo_env recovering_services "query_event ''p2''" "''u1''" "''t1''"]
  have c: "handle_query demo_env recovering_services (query_event ''p2'') ''u1'' ''t1'' empty_qworld
       = (Inr (create_response 404 (ErrorBody ''No files found for this project'')), empty_qworld)"
    by (simp add: i2 demo_files)
  from a b c show ?thesis by simp
qed

section \<open>Recording a turn\<close>

lemma table_put_fresh:
  "item_key it \<notin> set (map item_key tbl) \<Longrightarrow> table_put it tbl = tbl @ [it]"
  by (simp add: table_put_def)

lemma item_key_chat_message [simp]:
  "item_key (chat_message uid s u t p ty c ts src) = Some (PStr t, PStr uid)"
  by (simp add: item_key_def chat_message_def)

lemma save_chat_message_eq:
  assumes "CHAT_HISTORY_TABLE env = Some tn"
  shows "save_chat_message env sv s u t p ty c ts src w =
           (Inr (chat_fault sv (length (chat_log w)) = None),
            w\<lparr>uuid_draws := Suc (uuid_draws w),
               chat_log := chat_log w @ [PutItem (chat_message (uuid4 sv (uuid_draws w)) s u t p ty c ts src)],
               chat_table :=
                 if chat_fault sv (length (chat_log w)) = None
                 then table_put (chat_message (uuid4 sv (uuid_draws w)) s u t p ty c ts src) (chat_table w)
                 else chat_table w\<rparr>)"
  by (cases "chat_fault sv (length (chat_log w))")
    (simp_all add: save_chat_message_def assms environ_item_def put_item_def send_request_def Let_def)









lemma demo_inputs':
  "query_inputs demo_env (query_event ''p1'')
     = Inr (Proceed (PStr ''hello'') (PStr ''p1'') (PStr ''s-old'') ''kb'')"
  by (simp add: demo_inputs)

lemma demo_build:
  "build_params ''kb'' (PStr ''hello'') ''t1'' (PStr ''p1'') [PStr ''f1''] (PStr ''s-old'')
     = demo_params"
  by (simp add: build_params_def demo_params_def demo_filter_def filter_expression_def
      supplied_session_def py_strip_def is_space_def)

lemma demo_reply_parts:
  "py_get demo_reply ''sessionId'' PNone = Inr (PStr ''s-new'')"
  "py_item demo_reply ''sessionId'' = Inr (PStr ''s-new'')"
  "answer_text demo_reply = Inr (PStr ''answer'')"
  "extract_sources demo_reply = Inr demo_sources"
  by (simp_all add: demo_reply_def py_get_def py_item_def answer_text_def demo_sources_def
      extract_sources_def citation_sources_def reference_source_def py_iter_def py_truthy_def)

text \<open>The stale session is refused, the retry is answered.\<close>

lemma demo_perform:
  assumes "rag_reply sv = rag_reply recovering_services" and "rag_log w = []"
  shows "perform_retrieve_and_generate sv demo_params w
           = (Inr (demo_reply, True),
              w\<lparr>rag_log := [demo_params, demo_params\<lparr>sessionId := None\<rparr>]\<rparr>)"
  using assms
  by (simp add: perform_retrieve_and_generate_def call_rag_def recovering_services_def
      demo_params_def stale_session_error_def is_invalid_session_error_def)

lemma demo_turn:
  assumes "rag_reply sv = rag_reply recovering_services"
    and "files_reply sv = files_reply recovering_services"
    and "rag_log w = []"
  shows "handle_query demo_env sv (query_event ''p1'') ''u1'' ''t1'' w
           = record_turn demo_env sv (PStr ''hello'') (PStr ''p1'') [PStr ''f1''] ''u1'' ''t1''
               demo_reply (w\<lparr>rag_log := [demo_params, demo_params\<lparr>sessionId := None\<rparr>]\<rparr>)"
proof -
  have files: "get_file_ids demo_env sv ''t1'' (PStr ''p1'') = Inr [PStr ''f1'']"
    by (simp add: get_file_ids_def demo_env_def assms(2) recovering_services_def)
  show ?thesis
    by (simp add: handle_query_def demo_inputs' files demo_build demo_perform [OF assms(1,3)]
        py_truthy_def demo_reply_parts update_chat_history_session_id_eq)
qed

lemma demo_env_table: "CHAT_HISTORY_TABLE demo_env = Some ''chat-history''"
  by (simp add: demo_env_def)

text \<open>The demonstration request, answered by services that reply as \<open>recovering_services\<close>
  does: the reply, the two calls to the retrieval service, the two puts, the table.\<close>

lemma demo_outcome:
  assumes "rag_reply sv = rag_reply recovering_services"
    and "files_reply sv = files_reply recovering_services"
    and "rag_log w = []"
  shows "fst (handle_query demo_env sv (query_event ''p1'') ''u1'' ''t1'' w)
           = Inr (create_response 200
                    (QueryBody (PStr ''hello'') demo_reply [PStr ''f1''] (PStr ''p1'') ''t1'' ''u1''))"
    and "rag_log (snd (handle_query demo_env sv (query_event ''p1'') ''u1'' ''t1'' w))
           = [demo_params, demo_params\<lparr>sessionId := None\<rparr>]"
    and "chat_log (snd (handle_query demo_env sv (query_event ''p1'') ''u1'' ''t1'' w))
           = chat_log w
             @ [PutItem (chat_message (uuid4 sv (uuid_draws w)) (PStr ''s-new'') ''u1'' ''t1''
                           (PStr ''p1'') ''user'' (PStr ''hello'') (time_now sv) PNone),
                PutItem (chat_message (uuid4 sv (Suc (uuid_draws w))) (PStr ''s-new'') ''u1'' ''t1''
                           (PStr ''p1'') ''ai'' (PStr ''answer'') (time_now sv + 1)
                           (PList demo_sources))]"
    and "chat_table (snd (handle_query demo_env sv (query_event ''p1'') ''u1'' ''t1'' w))
           = (let after_user =
                    (if chat_fault sv (length (chat_log w)) = None
                     then table_put (chat_message (uuid4 sv (uuid_draws w)) (PStr ''s-new'') ''u1''
                                       ''t1'' (PStr ''p1'') ''user'' (PStr ''hello'') (time_now sv)
                                       PNone) (chat_table w)
                     else chat_table w)
              in if chat_fault sv (Suc (length (chat_log w))) = None
                 then table_put (chat_message (uuid4 sv (Suc (uuid_draws w))) (PStr ''s-new'') ''u1''
                                   ''t1'' (PStr ''p1'') ''ai'' (PStr ''answer'') (time_now sv + 1)
                                   (PList demo_sources)) after_user
                 else after_user)"
  by (simp_all add: demo_turn [OF assms] record_turn_def demo_reply_parts
      save_chat_message_eq [OF demo_env_table] Let_def)



lemma healthy_services: "chat_fault recovering_services j = None"
  by (simp add: recovering_services_def)



section \<open>Re-keying the history\<close>

text \<open>
  Claim C3. A recovered query does not rewrite the history. On a table in which user
  \<open>u1\<close> of tenant \<open>t1\<close> has two entries under the session \<open>s-old\<close>, a request that names
  \<open>s-old\<close> is refused by the service, retried without the session and answered under
  the new session \<open>s-new\<close>; the reply is 200, and the four entries that the table held
  are what they were, the two of \<open>u1\<close> still under \<open>s-old\<close>:
  \<open>update_chat_history_session_id\<close> finds its messages with
  \<open>get_chat_history_by_tenant_user\<close>, which returns none.
\<close>

theorem handle_query_keeps_old_session_id:
  "map_sum id statusCode
     (fst (handle_query demo_env recovering_services (query_event ''p1'') ''u1'' ''t1''
             history_world)) = Inr 200
   \<and> map sessionId
       (rag_log (snd (handle_query demo_env recovering_services (query_event ''p1'') ''u1'' ''t1''
                        history_world))) = [Some ''s-old'', None]
   \<and> take 4 (chat_table (snd (handle_query demo_env recovering_services (query_event ''p1'')
                                  ''u1'' ''t1'' history_world))) = chat_table history_world
   \<and> map session_of (filter (in_partition ''t1'' ''u1'') (chat_table history_world))
       = [PStr ''s-old'', PStr ''s-old'', PStr ''s-other'']"
proof -
  have w: "rag_log history_world = []" by (simp add: history_world_def)
  have len: "length (chat_table history_world) = 4" by (simp add: history_world_def)
  have sessions: "map session_of (filter (in_partition ''t1'' ''u1'') (chat_table history_world))
                    = [PStr ''s-old'', PStr ''s-old'', PStr ''s-other'']"
    by (simp add: history_partition session_of_def past_message_def chat_message_def)
  have ids: "uuid4 recovering_services (uuid_draws history_world) = ''u0''"
    "uuid4 recovering_services (Suc (uuid_draws history_world)) = ''u1''"
    by (simp_all add: recovering_services_def history_world_def)
  have fresh: "item_key (chat_message ''u0'' s u ''t1'' p ty c ts src)
                 \<notin> set (map item_key (chat_table history_world))"
    "item_key (chat_message ''u1'' s u ''t1'' p ty c ts src)
                 \<notin> set (map item_key (chat_table history_world
                       @ [chat_message ''u0'' s' u' ''t1'' p' ty' c' ts' src']))"
    for s u p ty c ts src s' u' p' ty' c' ts' src'
    by (simp_all add: history_world_def past_message_def)
  have tbl: "take 4 (chat_table (snd (handle_query demo_env recovering_services (query_event ''p1'')
                                  ''u1'' ''t1'' history_world))) = chat_table history_world"
    using len
    by (simp add: demo_outcome(4) [OF refl refl w] healthy_services Let_def ids
        table_put_fresh [OF fresh(1)] table_put_fresh [OF fresh(2)])
  from tbl sessions show ?thesis
    by (simp add: demo_outcome(1,2) [OF refl refl w] create_response_def demo_params_def)
qed
end
